theory Spec2Isabelle
  imports Complex_Main "HOL-Library.Word"
begin

section \<open>The Pi Camera V2.1 calibration and capture routines\<close>

text \<open>
  A shallow embedding of \<^verbatim>\<open>astroplant_camera_module/cameras/pi_cam_V21.py\<close>.
  The camera object's mutable attributes and everything the routines touch outside
  the process (the configuration file, the image files, the clock, the order of the
  calls to the light callback, the sensor and the worker processes) are fields of a
  \<open>world\<close> record that every routine takes and returns. What the hardware answers is
  an \<open>env\<close> record of oracles. A Python exception is the \<open>Inl\<close> of the result; the
  world returned with it holds the effects that happened before the raise.
  A Python float is the rational number it denotes. The arithmetic of the white balance
  loop, on which its result depends step by step, is rounded to double precision
  (\<open>round_double\<close> below); the one product of two gains and the ages of timestamps are
  computed exactly.
\<close>

subsection \<open>Data\<close>

text \<open>
  Modelled from the spec: the light channel enumeration \<^verbatim>\<open>LC\<close> of the module
  \<^verbatim>\<open>typedef\<close>, which the source imports. The source names \<open>WHITE\<close> and \<open>GROWTH\<close>;
  the spec's set is open (\<^verbatim>\<open>{WHITE, GROWTH, ...}\<close>), so two further channels stand
  for the rest.
\<close>

datatype LC = WHITE | GROWTH | RED | NIR

datatype py_error =
    KeyError
  | OSError
  | FileNotFoundError
  | ValueError
  | PiCameraError
  | Cv2Error

text \<open>\<^verbatim>\<open>FileNotFoundError\<close> is a subclass of \<^verbatim>\<open>OSError\<close>, and \<^verbatim>\<open>EnvironmentError\<close>
  is another name of \<^verbatim>\<open>OSError\<close>.\<close>

definition is_OSError :: "py_error \<Rightarrow> bool" where
  "is_OSError e = (e = OSError \<or> e = FileNotFoundError)"

type_synonym image = "8 word list"

record gain_entry =
  analog_gain :: rat
  digital_gain :: rat

record d2d_section =
  gains :: "LC \<rightharpoonup> gain_entry"
  timestamp :: rat

text \<open>The configuration dict \<^verbatim>\<open>self.config\<close>: a key that may be absent is an option.\<close>

record config =
  cam_id :: "int option"
  rotation :: "nat option"
  wb :: "(LC \<rightharpoonup> rat \<times> rat) option"
  d2d :: "d2d_section option"

record settings =
  resolution :: "nat \<times> nat"
  framerate :: "LC \<rightharpoonup> rat"
  shutter_speed :: "LC \<rightharpoonup> nat"
  wb_default :: "LC \<rightharpoonup> rat \<times> rat"
  exposure_mode :: string
  exposure_compensation :: int
  allowed_channels :: "LC list"

definition SETTINGS_V5 :: settings where
  "SETTINGS_V5 =
     \<lparr> resolution = (1632, 1216),
       framerate = [WHITE \<mapsto> 10 / 4, GROWTH \<mapsto> 30],
       shutter_speed = [WHITE \<mapsto> 400000, GROWTH \<mapsto> 4000],
       wb_default = [GROWTH \<mapsto> (4 / 10, 575 / 1000)],
       exposure_mode = ''off'',
       exposure_compensation = 0,
       allowed_channels = [WHITE, GROWTH] \<rparr>"

record camera =
  CAM_ID :: int
  HAS_UPDATE :: bool
  cam_settings :: settings
  light_channels :: "LC list"
  CALIBRATED :: bool

text \<open>The \<^verbatim>\<open>raspistill\<close> command line: the values formatted into \<^verbatim>\<open>photo_cmd\<close> and
  the output path appended to it.\<close>

record photo_cmd =
  cmd_w :: nat
  cmd_h :: nat
  cmd_ss :: nat
  cmd_awbg :: "rat \<times> rat"
  cmd_ag :: rat
  cmd_dg :: rat
  cmd_o :: string

datatype event =
    Light LC bool
  | SensorOpen
  | SensorClose
  | SensorCapture
  | Sleep nat
  | Spawn photo_cmd
  | SaveConfig

text \<open>
  What a worker process does. \<open>SpawnFails\<close>: \<^verbatim>\<open>p.start()\<close> raises \<^verbatim>\<open>OSError\<close> in the
  calling process. \<open>TimedOut\<close>: \<^verbatim>\<open>subprocess.run\<close> raises \<^verbatim>\<open>TimeoutExpired\<close> after
  20 seconds, inside the child process, and no file is written. \<open>Wrote img\<close>: the command
  wrote \<open>img\<close> to its output path. \<open>NoOutput\<close>: the command ended without writing.
\<close>

datatype worker_outcome = SpawnFails | TimedOut | Wrote image | NoOutput

record env =
  sensor_opens :: "nat \<Rightarrow> bool"
  sensor_gains :: "nat \<Rightarrow> py_error + rat \<times> rat"
  frame_means :: "nat \<Rightarrow> nat \<Rightarrow> rat \<times> rat \<Rightarrow> py_error + rat \<times> rat \<times> rat"
  worker :: "nat \<Rightarrow> worker_outcome"
  worker_secs :: "nat \<Rightarrow> nat"

record world =
  config :: config
  disk :: "config option"
  files :: "string \<rightharpoonup> image"
  cwd :: string
  now :: rat
  trace :: "event list"
  sessions :: nat
  spawns :: nat

subsection \<open>Primitive effects\<close>

definition emit :: "event \<Rightarrow> world \<Rightarrow> world" where
  "emit e w = w\<lparr>trace := trace w @ [e]\<rparr>"

text \<open>The light callback \<^verbatim>\<open>self.light_control(channel, state)\<close>: an external
  collaborator, of which the model records the calls.\<close>

definition light_control :: "LC \<Rightarrow> bool \<Rightarrow> world \<Rightarrow> world" where
  "light_control channel state w = emit (Light channel state) w"

definition sleep :: "nat \<Rightarrow> world \<Rightarrow> world" where
  "sleep n w = emit (Sleep n) (w\<lparr>now := now w + of_nat n\<rparr>)"

text \<open>
  Modelled from the spec: \<^verbatim>\<open>save_config_to_file\<close> of the superclass \<^verbatim>\<open>CAMERA\<close>
  (module \<^verbatim>\<open>core.camera\<close>, not among the sources). The spec's \<^verbatim>\<open>save(record)\<close>
  "performs a full atomic overwrite": the persisted record becomes the in-memory one.
\<close>

definition save_config_to_file :: "world \<Rightarrow> world" where
  "save_config_to_file w = emit SaveConfig (w\<lparr>disk := Some (config w)\<rparr>)"

text \<open>The state of a channel's light: the state of the last call of the callback for
  that channel, \<open>None\<close> when it was never called.\<close>

fun light_state :: "event list \<Rightarrow> LC \<Rightarrow> bool option" where
  "light_state [] ch = None"
| "light_state (Light c s # es) ch =
     (case light_state es ch of
        Some s' \<Rightarrow> Some s'
      | None \<Rightarrow> (if c = ch then Some s else None))"
| "light_state (e # es) ch = light_state es ch"

text \<open>\<^verbatim>\<open>with picamera.PiCamera() as sensor:\<close> opens a session, runs the body and
  closes the session on every exit of the body.\<close>

definition with_sensor ::
  "env \<Rightarrow> (nat \<Rightarrow> world \<Rightarrow> (py_error + 'a) \<times> world) \<Rightarrow> world \<Rightarrow> (py_error + 'a) \<times> world" where
  "with_sensor E body w =
     (let n = sessions w; w1 = w\<lparr>sessions := Suc n\<rparr> in
      if sensor_opens E n then
        (case body n (emit SensorOpen w1) of (r, w2) \<Rightarrow> (r, emit SensorClose w2))
      else (Inl PiCameraError, w1))"

subsection \<open>setup_d2d\<close>

definition setup_d2d :: "world \<Rightarrow> world" where
  "setup_d2d w =
     save_config_to_file
       (w\<lparr>config := (config w)\<lparr>d2d := Some
            \<lparr> gains = [WHITE \<mapsto> \<lparr>analog_gain = 1, digital_gain = 1\<rparr>,
                       GROWTH \<mapsto> \<lparr>analog_gain = 1, digital_gain = 1\<rparr>],
              timestamp = now w \<rparr>\<rparr>\<rparr>)"

subsection \<open>update\<close>

text \<open>The body of the \<^verbatim>\<open>with\<close> block of \<^verbatim>\<open>update\<close>, for session \<open>n\<close>.\<close>

definition update_session ::
  "env \<Rightarrow> camera \<Rightarrow> LC \<Rightarrow> nat \<Rightarrow> world \<Rightarrow> (py_error + unit) \<times> world" where
  "update_session E C channel n w =
     (case framerate (cam_settings C) channel of None \<Rightarrow> (Inl KeyError, w) | Some fr \<Rightarrow>
      case shutter_speed (cam_settings C) channel of None \<Rightarrow> (Inl KeyError, w) | Some ss \<Rightarrow>
      case wb (config w) of None \<Rightarrow> (Inl KeyError, w) | Some m \<Rightarrow>
      case m channel of None \<Rightarrow> (Inl KeyError, w) | Some awb_gains \<Rightarrow>
      let w1 = sleep 30 w in
      case sensor_gains E n of Inl e \<Rightarrow> (Inl e, w1) | Inr (ag, dg) \<Rightarrow>
      case d2d (config w1) of None \<Rightarrow> (Inl KeyError, w1) | Some d \<Rightarrow>
      case gains d channel of None \<Rightarrow> (Inl KeyError, w1) | Some old \<Rightarrow>
        (Inr (), w1\<lparr>config := (config w1)\<lparr>d2d := Some
           (d\<lparr>gains := (gains d)(channel \<mapsto> \<lparr>analog_gain = ag, digital_gain = dg\<rparr>)\<rparr>)\<rparr>\<rparr>))"

definition update_channel ::
  "env \<Rightarrow> camera \<Rightarrow> LC \<Rightarrow> world \<Rightarrow> (py_error + unit) \<times> world" where
  "update_channel E C channel w =
     (case with_sensor E (update_session E C channel) (light_control channel True w) of
        (Inl e, w1) \<Rightarrow> (Inl e, w1)
      | (Inr u, w1) \<Rightarrow> (Inr (), light_control channel False w1))"

fun update_loop ::
  "env \<Rightarrow> camera \<Rightarrow> LC list \<Rightarrow> world \<Rightarrow> (py_error + unit) \<times> world" where
  "update_loop E C [] w = (Inr (), w)"
| "update_loop E C (channel # channels) w =
     (case update_channel E C channel w of
        (Inl e, w1) \<Rightarrow> (Inl e, w1)
      | (Inr u, w1) \<Rightarrow> update_loop E C channels w1)"

definition update :: "env \<Rightarrow> camera \<Rightarrow> world \<Rightarrow> (py_error + unit) \<times> world" where
  "update E C w =
     (case update_loop E C (light_channels C)
             (if d2d (config w) = None then setup_d2d w else w) of
        (Inl e, w1) \<Rightarrow> (Inl e, w1)
      | (Inr u, w1) \<Rightarrow>
          (case d2d (config w1) of
             None \<Rightarrow> (Inl KeyError, w1)
           | Some d \<Rightarrow>
               (Inr (), save_config_to_file
                  (w1\<lparr>config := (config w1)\<lparr>d2d := Some (d\<lparr>timestamp := now w1\<rparr>)\<rparr>\<rparr>))))"

subsection \<open>capture\<close>

definition path_to_bright :: "world \<Rightarrow> string" where
  "path_to_bright w = cwd w @ ''/cam/tmp/bright.bmp''"

definition path_to_dark :: "world \<Rightarrow> string" where
  "path_to_dark w = cwd w @ ''/cam/tmp/dark.bmp''"

text \<open>The lookups that compute \<^verbatim>\<open>gain\<close> and format \<^verbatim>\<open>photo_cmd\<close>, in the source's
  order; each absent key raises \<^verbatim>\<open>KeyError\<close>.\<close>

definition photo_command :: "camera \<Rightarrow> LC \<Rightarrow> config \<Rightarrow> py_error + rat \<times> photo_cmd" where
  "photo_command C channel cfg =
     (case d2d cfg of None \<Rightarrow> Inl KeyError | Some d \<Rightarrow>
      case gains d channel of None \<Rightarrow> Inl KeyError | Some ge \<Rightarrow>
      case shutter_speed (cam_settings C) channel of None \<Rightarrow> Inl KeyError | Some ss \<Rightarrow>
      case wb cfg of None \<Rightarrow> Inl KeyError | Some m \<Rightarrow>
      case m channel of None \<Rightarrow> Inl KeyError | Some awbg \<Rightarrow>
        Inr (analog_gain ge * digital_gain ge,
             \<lparr> cmd_w = fst (resolution (cam_settings C)),
               cmd_h = snd (resolution (cam_settings C)),
               cmd_ss = ss, cmd_awbg = awbg,
               cmd_ag = analog_gain ge, cmd_dg = digital_gain ge,
               cmd_o = [] \<rparr>))"

text \<open>
  \<^verbatim>\<open>p = mp.Process(target=photo_worker, args=(cmd,)); p.start(); p.join()\<close>.
  An exception of \<^verbatim>\<open>photo_worker\<close> (the \<^verbatim>\<open>TimeoutExpired\<close> of
  \<^verbatim>\<open>subprocess.run(cmd, shell=True, timeout=20)\<close>) is raised in the child process:
  \<^verbatim>\<open>join\<close> returns normally and the exit code is not read.
\<close>

definition run_worker :: "env \<Rightarrow> photo_cmd \<Rightarrow> world \<Rightarrow> (py_error + unit) \<times> world" where
  "run_worker E cmd w =
     (let k = spawns w; w1 = emit (Spawn cmd) (w\<lparr>spawns := Suc k\<rparr>) in
      case worker E k of
        SpawnFails \<Rightarrow> (Inl OSError, w1)
      | TimedOut \<Rightarrow> (Inr (), w1\<lparr>now := now w1 + 20\<rparr>)
      | Wrote img \<Rightarrow>
          (Inr (), w1\<lparr>files := (files w1)(cmd_o cmd \<mapsto> img),
                        now := now w1 + of_nat (worker_secs E k)\<rparr>)
      | NoOutput \<Rightarrow> (Inr (), w1\<lparr>now := now w1 + of_nat (worker_secs E k)\<rparr>))"

text \<open>\<^verbatim>\<open>cv2.subtract\<close> on two 8-bit arrays: the saturated difference of each pair of
  values; arrays of different sizes are an error.\<close>

definition saturate_sub :: "8 word \<Rightarrow> 8 word \<Rightarrow> 8 word" where
  "saturate_sub x y = (if x < y then 0 else x - y)"

definition cv2_subtract :: "image \<Rightarrow> image \<Rightarrow> py_error + image" where
  "cv2_subtract a b =
     (if length a = length b then Inr (map2 saturate_sub a b) else Inl Cv2Error)"

text \<open>\<^verbatim>\<open>Image.open\<close> of a path: the file's image, or \<^verbatim>\<open>FileNotFoundError\<close>.\<close>

definition image_open :: "world \<Rightarrow> string \<Rightarrow> py_error + image" where
  "image_open w p = (case files w p of None \<Rightarrow> Inl FileNotFoundError | Some img \<Rightarrow> Inr img)"

text \<open>Loading the two files and the dark frame subtraction.\<close>

definition load_frames :: "LC \<Rightarrow> world \<Rightarrow> py_error + image" where
  "load_frames channel w =
     (case image_open w (path_to_bright w) of Inl e \<Rightarrow> Inl e | Inr bright \<Rightarrow>
      if channel \<noteq> GROWTH then
        (case image_open w (path_to_dark w) of Inl e \<Rightarrow> Inl e
         | Inr dark \<Rightarrow> cv2_subtract bright dark)
      else Inr bright)"

definition capture ::
  "env \<Rightarrow> camera \<Rightarrow> LC \<Rightarrow> world \<Rightarrow> (py_error + image option \<times> rat) \<times> world" where
  "capture E C channel w =
     (case (if d2d (config w) = None then update E C (setup_d2d w) else (Inr (), w)) of
        (Inl e, w1) \<Rightarrow> (Inl e, w1)
      | (Inr u, w1) \<Rightarrow>
     let w2 = light_control channel True w1 in
     case photo_command C channel (config w2) of Inl e \<Rightarrow> (Inl e, w2) | Inr (gain, cmd) \<Rightarrow>
     case run_worker E (cmd\<lparr>cmd_o := path_to_bright w2\<rparr>) w2 of
        (Inl e, w3) \<Rightarrow> (if is_OSError e then (Inr (None, 0), w3) else (Inl e, w3))
      | (Inr u, w3) \<Rightarrow>
     let w4 = light_control channel False w3 in
     case run_worker E (cmd\<lparr>cmd_o := path_to_dark w4\<rparr>) w4 of
        (Inl e, w5) \<Rightarrow> (if is_OSError e then (Inr (None, 0), w5) else (Inl e, w5))
      | (Inr u, w5) \<Rightarrow>
     case load_frames channel w5 of Inl e \<Rightarrow> (Inl e, w5) | Inr rgb \<Rightarrow>
     case d2d (config w5) of None \<Rightarrow> (Inl KeyError, w5) | Some d \<Rightarrow>
     if now w5 - timestamp d > 3600 * 24 then
       (case update E C w5 of
          (Inl e, w6) \<Rightarrow> (Inl e, w6)
        | (Inr u, w6) \<Rightarrow> (Inr (Some rgb, gain), w6))
     else (Inr (Some rgb, gain), w5))"

subsection \<open>Double precision arithmetic\<close>

text \<open>
  Rounding of a rational to the nearest IEEE 754 binary64 number, ties to the even
  significand: \<open>ilog2 x\<close> is the exponent \<open>e\<close> with \<open>2 ^ e \<le> x < 2 ^ (e + 1)\<close> of a positive
  \<open>x\<close>, the spacing of the doubles around \<open>x\<close> is \<open>2 ^ (e - 52)\<close>, and \<open>2 ^ (- 1074)\<close> below
  the normal range. Values beyond the largest double, which Python turns into an
  infinity, are not told apart: the gains of the loop stay between 0.35 and 1.85.
\<close>

function bit_length :: "int \<Rightarrow> int" where
  "bit_length a = (if a \<le> 0 then 0 else 1 + bit_length (a div 2))"
  by pat_completeness auto
termination
  by (relation "measure nat") auto

declare bit_length.simps [simp del]

definition pow2 :: "int \<Rightarrow> rat" where
  "pow2 k = (if 0 \<le> k then 2 ^ nat k else 1 / 2 ^ nat (- k))"

definition ilog2 :: "rat \<Rightarrow> int" where
  "ilog2 x =
     (case quotient_of x of (a, b) \<Rightarrow>
        let e0 = bit_length a - bit_length b
        in if pow2 e0 \<le> x then e0 else e0 - 1)"

definition round_half_even :: "rat \<Rightarrow> int" where
  "round_half_even y =
     (let f = \<lfloor>y\<rfloor>; d = y - of_int f
      in if d < 1 / 2 then f else if 1 / 2 < d then f + 1 else if even f then f else f + 1)"

definition round_double :: "rat \<Rightarrow> rat" where
  "round_double x =
     (if x = 0 then 0
      else let q = pow2 (max (ilog2 (abs x)) (- 1022) - 52)
           in sgn x * of_int (round_half_even (abs x / q)) * q)"

text \<open>A float literal of the source is the double nearest to the decimal; \<^verbatim>\<open>a + b\<close> and
  \<^verbatim>\<open>a - b\<close> on floats are the exact result rounded.\<close>

definition float_lit :: "rat \<Rightarrow> rat" where
  "float_lit q = round_double q"

definition float_add :: "rat \<Rightarrow> rat \<Rightarrow> rat" where
  "float_add a b = round_double (a + b)"

definition float_sub :: "rat \<Rightarrow> rat \<Rightarrow> rat" where
  "float_sub a b = round_double (a - b)"

subsection \<open>calibrate_white_balance\<close>

text \<open>The loop \<^verbatim>\<open>for i in range(30)\<close>, over the list of the indices left. The means
  \<open>r\<close>, \<open>g\<close>, \<open>b\<close> and the gains are floats; the comparisons with \<open>1\<close> and of two means
  are exact, on a difference that is rounded.\<close>

fun wb_loop ::
  "env \<Rightarrow> nat \<Rightarrow> nat list \<Rightarrow> rat \<times> rat \<Rightarrow> world \<Rightarrow> (py_error + rat \<times> rat) \<times> world" where
  "wb_loop E n [] (rg, bg) w = (Inr (rg, bg), w)"
| "wb_loop E n (i # rest) (rg, bg) w =
     (let w1 = emit SensorCapture w in
      case frame_means E n i (rg, bg) of
        Inl e \<Rightarrow> (Inl e, w1)
      | Inr (r, g, b) \<Rightarrow>
          wb_loop E n rest
            (if abs (float_sub r g) > 1
             then (if r > g then float_sub rg (float_lit (25 / 1000))
                   else float_add rg (float_lit (25 / 1000)))
             else rg,
             if abs (float_sub b g) > 1
             then (if b > g then float_sub bg (float_lit (25 / 1000))
                   else float_add bg (float_lit (25 / 1000)))
             else bg)
            w1)"

definition wb_session ::
  "env \<Rightarrow> camera \<Rightarrow> LC \<Rightarrow> nat \<Rightarrow> world \<Rightarrow> (py_error + rat \<times> rat) \<times> world" where
  "wb_session E C channel n w =
     (case rotation (config w) of None \<Rightarrow> (Inl KeyError, w) | Some rot \<Rightarrow>
      case framerate (cam_settings C) channel of None \<Rightarrow> (Inl KeyError, w) | Some fr \<Rightarrow>
      case shutter_speed (cam_settings C) channel of None \<Rightarrow> (Inl KeyError, w) | Some ss \<Rightarrow>
        wb_loop E n [0..<30] (float_lit (11 / 10), float_lit (11 / 10)) (sleep 20 w))"

definition calibrate_white_balance ::
  "env \<Rightarrow> camera \<Rightarrow> LC \<Rightarrow> world \<Rightarrow> (py_error + unit) \<times> world" where
  "calibrate_white_balance E C channel w =
     (let w1 = light_control channel True w in
      case (if channel = WHITE then with_sensor E (wb_session E C channel) w1
            else (case wb_default (cam_settings C) GROWTH of
                    None \<Rightarrow> (Inl KeyError, w1)
                  | Some gb \<Rightarrow> (Inr gb, w1))) of
        (Inl e, w2) \<Rightarrow> (Inl e, w2)
      | (Inr (rg, bg), w2) \<Rightarrow>
          (let w3 = light_control channel False w2 in
           case wb (config w3) of
             None \<Rightarrow> (Inl KeyError, w3)
           | Some m \<Rightarrow>
               (Inr (), w3\<lparr>config := (config w3)\<lparr>wb := Some (m(channel \<mapsto> (rg, bg)))\<rparr>\<rparr>)))"

subsection \<open>The constructor\<close>

text \<open>
  \<^verbatim>\<open>load_config_from_file\<close> belongs to the superclass, so its outcome is a parameter:
  the exception it raises or the configuration it stores in \<^verbatim>\<open>self.config\<close>.
  \<open>cfg0\<close> is the configuration the object holds when loading fails.
\<close>

definition init ::
  "settings \<Rightarrow> LC list \<Rightarrow> py_error + config \<Rightarrow> config \<Rightarrow> py_error + camera \<times> config" where
  "init stg chans loaded cfg0 =
     (let C = \<lparr> CAM_ID = 2, HAS_UPDATE = True, cam_settings = stg,
                light_channels = filter (\<lambda>channel. channel \<in> set (allowed_channels stg)) chans,
                CALIBRATED = False \<rparr> in
      case loaded of
        Inr cfg \<Rightarrow>
          (case cam_id cfg of
             None \<Rightarrow> Inl KeyError
           | Some i \<Rightarrow>
               if i = CAM_ID C then Inr (C\<lparr>CALIBRATED := True\<rparr>, cfg)
               else Inr (C\<lparr>CALIBRATED := False\<rparr>, cfg))
      | Inl e \<Rightarrow>
          if is_OSError e \<or> e = ValueError then Inr (C\<lparr>CALIBRATED := False\<rparr>, cfg0)
          else Inl e)"

section \<open>Notions of the statements\<close>

text \<open>The white balance entry the record holds for a channel: \<^verbatim>\<open>config["wb"][channel]\<close>
  when both keys are present.\<close>

definition wb_entry :: "config \<Rightarrow> LC \<Rightarrow> (rat \<times> rat) option" where
  "wb_entry cfg channel = (case wb cfg of None \<Rightarrow> None | Some m \<Rightarrow> m channel)"

text \<open>
  The step rule of the white balance loop in the spec's words (section 4.3, steps 3 and
  4): if the mean of the colour differs from the green mean by more than the tolerance
  1.0, the gain of the colour moves by the increment 0.025, down when the colour's mean
  is the larger, up otherwise. The spec asks for the trace bit for bit, so the
  difference, the increment and the moved gain are doubles.
\<close>

definition wb_step_rule :: "rat \<Rightarrow> rat \<Rightarrow> rat \<Rightarrow> rat" where
  "wb_step_rule mean green gain =
     (if abs (float_sub mean green) > 1
      then (if mean > green then float_sub gain (float_lit (25 / 1000))
            else float_add gain (float_lit (25 / 1000)))
      else gain)"

text \<open>The trace of the step rule in the spec's words: the gains after \<open>k\<close> iterations
  from the starting point (1.1, 1.1), for a sensor that answers iteration \<open>i\<close> under the
  gains \<open>gb\<close> with the channel means \<open>resp i gb\<close>.\<close>

primrec wb_trace :: "(nat \<Rightarrow> rat \<times> rat \<Rightarrow> rat \<times> rat \<times> rat) \<Rightarrow> nat \<Rightarrow> rat \<times> rat" where
  "wb_trace resp 0 = (float_lit (11 / 10), float_lit (11 / 10))"
| "wb_trace resp (Suc k) =
     (case wb_trace resp k of (rg, bg) \<Rightarrow>
      case resp k (rg, bg) of (r, g, b) \<Rightarrow>
        (wb_step_rule r g rg, wb_step_rule b g bg))"

section \<open>Concrete inputs\<close>

text \<open>A camera on \<open>SETTINGS_V5\<close> with both channels, a calibrated record, and an
  environment in which the hardware works: the sensor reports analog gain 2 and digital
  gain 3, every frame of the white balance loop has the channel means (100, 50, 20), and
  a worker writes the frame [10, 20, 5] when its number is even (the bright exposure of a
  capture started at an even count) and [3, 3, 3] when it is odd.\<close>

definition cam_v5 :: camera where
  "cam_v5 = \<lparr> CAM_ID = 2, HAS_UPDATE = True, cam_settings = SETTINGS_V5,
              light_channels = [WHITE, GROWTH], CALIBRATED = True \<rparr>"

definition cfg_calibrated :: config where
  "cfg_calibrated =
     \<lparr> cam_id = Some 2, rotation = Some 0,
       wb = Some [WHITE \<mapsto> (12 / 10, 13 / 10), GROWTH \<mapsto> (4 / 10, 575 / 1000)],
       d2d = Some \<lparr> gains = [WHITE \<mapsto> \<lparr>analog_gain = 1, digital_gain = 1\<rparr>,
                             GROWTH \<mapsto> \<lparr>analog_gain = 1, digital_gain = 1\<rparr>],
                    timestamp = 0 \<rparr> \<rparr>"

definition cfg_other_camera :: config where
  "cfg_other_camera = \<lparr> cam_id = Some 1, rotation = Some 0, wb = Some Map.empty, d2d = None \<rparr>"

definition cfg_empty :: config where
  "cfg_empty = \<lparr> cam_id = None, rotation = None, wb = None, d2d = None \<rparr>"

definition world0 :: "config \<Rightarrow> rat \<Rightarrow> world" where
  "world0 cfg t =
     \<lparr> config = cfg, disk = Some cfg, files = Map.empty, cwd = ''/home/pi'', now = t,
       trace = [], sessions = 0, spawns = 0 \<rparr>"

definition env_ok :: env where
  "env_ok =
     \<lparr> sensor_opens = (\<lambda>n. True),
       sensor_gains = (\<lambda>n. Inr (2, 3)),
       frame_means = (\<lambda>n i gb. Inr (100, 50, 20)),
       worker = (\<lambda>k. if even k then Wrote [10, 20, 5] else Wrote [3, 3, 3]),
       worker_secs = (\<lambda>k. 5) \<rparr>"

definition cfg_no_d2d :: config where
  "cfg_no_d2d = cfg_calibrated\<lparr>d2d := None\<rparr>"

text \<open>Hardware faults: no sensor session opens; only the first session opens.\<close>

definition env_sensor_down :: env where
  "env_sensor_down = env_ok\<lparr>sensor_opens := (\<lambda>n. False)\<rparr>"

definition env_second_session_fails :: env where
  "env_second_session_fails = env_ok\<lparr>sensor_opens := (\<lambda>n. n = 0)\<rparr>"

text \<open>A record in which only the \<open>GROWTH\<close> channel has a white balance entry.\<close>

definition cfg_wb_growth_only :: config where
  "cfg_wb_growth_only = cfg_calibrated\<lparr>wb := Some [GROWTH \<mapsto> (4 / 10, 575 / 1000)]\<rparr>"

text \<open>Worker faults: every start of a worker process fails; only the second start
  fails; the first worker's command times out.\<close>

definition env_spawn_fails :: env where
  "env_spawn_fails = env_ok\<lparr>worker := (\<lambda>k. SpawnFails)\<rparr>"

definition env_dark_spawn_fails :: env where
  "env_dark_spawn_fails = env_ok\<lparr>worker := (\<lambda>k. if k = 0 then Wrote [10, 20, 5] else SpawnFails)\<rparr>"

definition env_bright_times_out :: env where
  "env_bright_times_out = env_ok\<lparr>worker := (\<lambda>k. if k = 0 then TimedOut else Wrote [3, 3, 3])\<rparr>"


text \<open>A world in which an earlier capture has left its bright frame behind.\<close>

definition world_stale_frame :: world where
  "world_stale_frame =
     (world0 cfg_calibrated 100)\<lparr>files := [''/home/pi/cam/tmp/bright.bmp'' \<mapsto> [10, 20, 5]]\<rparr>"

section \<open>Basic facts about the effects\<close>

lemma emit_fields [simp]:
  "config (emit e w) = config w" "disk (emit e w) = disk w" "files (emit e w) = files w"
  "cwd (emit e w) = cwd w" "now (emit e w) = now w" "sessions (emit e w) = sessions w"
  "spawns (emit e w) = spawns w" "trace (emit e w) = trace w @ [e]"
  by (simp_all add: emit_def)

lemma light_control_fields [simp]:
  "config (light_control c s w) = config w" "disk (light_control c s w) = disk w"
  "files (light_control c s w) = files w" "cwd (light_control c s w) = cwd w"
  "now (light_control c s w) = now w" "sessions (light_control c s w) = sessions w"
  "spawns (light_control c s w) = spawns w"
  "trace (light_control c s w) = trace w @ [Light c s]"
  by (simp_all add: light_control_def)

lemma sleep_fields [simp]:
  "config (sleep n w) = config w" "disk (sleep n w) = disk w" "files (sleep n w) = files w"
  "cwd (sleep n w) = cwd w" "now (sleep n w) = now w + of_nat n"
  "sessions (sleep n w) = sessions w" "spawns (sleep n w) = spawns w"
  "trace (sleep n w) = trace w @ [Sleep n]"
  by (simp_all add: sleep_def)

lemma save_config_to_file_fields [simp]:
  "config (save_config_to_file w) = config w" "disk (save_config_to_file w) = Some (config w)"
  "files (save_config_to_file w) = files w" "cwd (save_config_to_file w) = cwd w"
  "now (save_config_to_file w) = now w" "sessions (save_config_to_file w) = sessions w"
  "spawns (save_config_to_file w) = spawns w"
  "trace (save_config_to_file w) = trace w @ [SaveConfig]"
  by (simp_all add: save_config_to_file_def)

lemma setup_d2d_fields [simp]:
  "disk (setup_d2d w) = Some (config (setup_d2d w))"
  "files (setup_d2d w) = files w" "cwd (setup_d2d w) = cwd w" "now (setup_d2d w) = now w"
  "sessions (setup_d2d w) = sessions w" "spawns (setup_d2d w) = spawns w"
  "trace (setup_d2d w) = trace w @ [SaveConfig]"
  "wb (config (setup_d2d w)) = wb (config w)"
  "cam_id (config (setup_d2d w)) = cam_id (config w)"
  "rotation (config (setup_d2d w)) = rotation (config w)"
  by (simp_all add: setup_d2d_def)

lemma setup_d2d_d2d:
  "d2d (config (setup_d2d w)) =
     Some \<lparr> gains = [WHITE \<mapsto> \<lparr>analog_gain = 1, digital_gain = 1\<rparr>,
                     GROWTH \<mapsto> \<lparr>analog_gain = 1, digital_gain = 1\<rparr>],
            timestamp = now w \<rparr>"
  by (simp add: setup_d2d_def)

lemma light_state_append:
  "light_state (xs @ ys) ch =
     (case light_state ys ch of Some s \<Rightarrow> Some s | None \<Rightarrow> light_state xs ch)"
proof (induction xs)
  case Nil
  show ?case by (simp split: option.splits)
next
  case (Cons e xs)
  then show ?case by (cases e) (simp_all split: option.splits)
qed

lemma with_sensor_cases:
  "with_sensor E body w =
     (if sensor_opens E (sessions w)
      then (fst (body (sessions w) (emit SensorOpen (w\<lparr>sessions := Suc (sessions w)\<rparr>))),
            emit SensorClose (snd (body (sessions w) (emit SensorOpen (w\<lparr>sessions := Suc (sessions w)\<rparr>)))))
      else (Inl PiCameraError, w\<lparr>sessions := Suc (sessions w)\<rparr>))"
  by (simp add: with_sensor_def Let_def split: prod.splits)

text \<open>What a pass over one channel leaves untouched.\<close>

lemma update_session_frame:
  assumes "update_session E C ch n w = (r, w')"
  shows "disk w' = disk w" "files w' = files w" "cwd w' = cwd w" "spawns w' = spawns w"
    "sessions w' = sessions w"
    "wb (config w') = wb (config w)" "rotation (config w') = rotation (config w)"
    "cam_id (config w') = cam_id (config w)"
    "d2d (config w) \<noteq> None \<Longrightarrow> d2d (config w') \<noteq> None"
    "\<exists>es. trace w' = trace w @ es \<and> set es \<subseteq> {Sleep 30}"
  using assms
  by (auto simp: update_session_def Let_def split: option.splits sum.splits prod.splits)

lemma update_channel_frame:
  assumes "update_channel E C ch w = (r, w')"
  shows "disk w' = disk w" "files w' = files w" "cwd w' = cwd w" "spawns w' = spawns w"
    "wb (config w') = wb (config w)" "rotation (config w') = rotation (config w)"
    "cam_id (config w') = cam_id (config w)"
    "d2d (config w) \<noteq> None \<Longrightarrow> d2d (config w') \<noteq> None"
    "\<exists>es. trace w' = trace w @ es \<and> SaveConfig \<notin> set es \<and> (\<forall>c. Spawn c \<notin> set es)"
proof -
  let ?w1 = "emit SensorOpen ((light_control ch True w)\<lparr>sessions := Suc (sessions w)\<rparr>)"
  obtain r2 w2 where b: "update_session E C ch (sessions w) ?w1 = (r2, w2)"
    by (cases "update_session E C ch (sessions w) ?w1")
  note f = update_session_frame [OF b]
  from f(10) obtain es where es: "trace w2 = trace ?w1 @ es" "set es \<subseteq> {Sleep 30}" by blast
  have w': "w' = (if sensor_opens E (sessions w)
                then (case r2 of Inl e \<Rightarrow> emit SensorClose w2
                      | Inr u \<Rightarrow> light_control ch False (emit SensorClose w2))
                else (light_control ch True w)\<lparr>sessions := Suc (sessions w)\<rparr>)"
    using assms b
    by (auto simp: update_channel_def with_sensor_cases split: sum.splits if_splits)
  show "disk w' = disk w" "files w' = files w" "cwd w' = cwd w" "spawns w' = spawns w"
    "wb (config w') = wb (config w)" "rotation (config w') = rotation (config w)"
    "cam_id (config w') = cam_id (config w)"
    using f w' by (auto split: sum.splits)
  show "d2d (config w) \<noteq> None \<Longrightarrow> d2d (config w') \<noteq> None"
    using f(9) w' by (auto split: sum.splits)
  show "\<exists>es. trace w' = trace w @ es \<and> SaveConfig \<notin> set es \<and> (\<forall>c. Spawn c \<notin> set es)"
    using es w' by (auto split: sum.splits)
qed

lemma update_loop_frame:
  assumes "update_loop E C chs w = (r, w')"
  shows "disk w' = disk w \<and> files w' = files w \<and> cwd w' = cwd w \<and> spawns w' = spawns w
    \<and> wb (config w') = wb (config w) \<and> rotation (config w') = rotation (config w)
    \<and> cam_id (config w') = cam_id (config w)
    \<and> (d2d (config w) \<noteq> None \<longrightarrow> d2d (config w') \<noteq> None)
    \<and> (\<exists>es. trace w' = trace w @ es \<and> SaveConfig \<notin> set es \<and> (\<forall>c. Spawn c \<notin> set es))"
  using assms
proof (induction chs arbitrary: w)
  case Nil
  then show ?case by simp
next
  case (Cons ch chs)
  obtain r1 w1 where s: "update_channel E C ch w = (r1, w1)"
    by (cases "update_channel E C ch w")
  note f = update_channel_frame [OF s]
  show ?case
  proof (cases r1)
    case (Inl e)
    with Cons.prems s have "w' = w1" by simp
    with f show ?thesis by simp
  next
    case (Inr u)
    with Cons.prems s have "update_loop E C chs w1 = (r, w')" by simp
    from Cons.IH [OF this] f show ?thesis by (auto simp del: ex_simps)
  qed
qed

lemma update_frame:
  assumes "update E C w = (r, w')"
  shows "files w' = files w" "cwd w' = cwd w" "spawns w' = spawns w"
    "wb (config w') = wb (config w)" "rotation (config w') = rotation (config w)"
    "cam_id (config w') = cam_id (config w)"
proof -
  let ?w0 = "if d2d (config w) = None then setup_d2d w else w"
  obtain r1 w1 where l: "update_loop E C (light_channels C) ?w0 = (r1, w1)"
    by (cases "update_loop E C (light_channels C) ?w0")
  note f = update_loop_frame [OF l]
  have "w' = w1 \<or> (\<exists>d. w' = save_config_to_file
                  (w1\<lparr>config := (config w1)\<lparr>d2d := Some d\<rparr>\<rparr>))"
    using assms l by (auto simp: update_def split: sum.splits option.splits)
  with f show "files w' = files w" "cwd w' = cwd w" "spawns w' = spawns w"
    "wb (config w') = wb (config w)" "rotation (config w') = rotation (config w)"
    "cam_id (config w') = cam_id (config w)"
    by (auto split: if_splits)
qed

lemma update_Inr_d2d:
  assumes "update E C w = (Inr u, w')"
  shows "d2d (config w') \<noteq> None"
  using assms by (auto simp: update_def split: sum.splits option.splits prod.splits)

lemmas concrete_defs =
  env_ok_def cam_v5_def world0_def cfg_calibrated_def cfg_no_d2d_def SETTINGS_V5_def
  env_sensor_down_def env_second_session_fails_def

lemmas effect_defs =
  update_def update_channel_def update_session_def with_sensor_cases setup_d2d_def
  save_config_to_file_def light_control_def sleep_def emit_def

section \<open>Gain calibration persists after the loop\<close>

text \<open>
  Claim C4, as the code has it. A run of \<open>update\<close> first bootstraps the gain section when
  it is absent, and \<open>setup_d2d\<close> persists the record with the defaults at once. The
  per-channel loop then runs without persisting anything: it leaves the persisted record
  and the number of saves as they were at its start. When the loop raises, \<open>update\<close> raises
  the same error from the same world, so with a gain section present the persisted record
  is the one from before the run. When the loop completes, the record is persisted once
  more, as the last effect of the run.
\<close>

theorem update_persists_once_after_loop:
  assumes "update E C w = (r, w')"
    and "lp = update_loop E C (light_channels C)
                (if d2d (config w) = None then setup_d2d w else w)"
  shows "disk (snd lp) =
           (if d2d (config w) = None then Some (config (setup_d2d w)) else disk w)
       \<and> count_list (trace (snd lp)) SaveConfig =
           count_list (trace w) SaveConfig + (if d2d (config w) = None then 1 else 0)
       \<and> (case fst lp of
             Inl e \<Rightarrow> r = Inl e \<and> w' = snd lp
           | Inr u \<Rightarrow> r = Inr () \<and> disk w' = Some (config w') \<and>
                      trace w' = trace (snd lp) @ [SaveConfig])"
proof -
  let ?w0 = "if d2d (config w) = None then setup_d2d w else w"
  obtain r1 w1 where l: "update_loop E C (light_channels C) ?w0 = (r1, w1)"
    by (cases "update_loop E C (light_channels C) ?w0")
  from update_loop_frame [OF l] obtain es where
    f: "disk w1 = disk ?w0" "d2d (config ?w0) \<noteq> None \<longrightarrow> d2d (config w1) \<noteq> None"
    and es: "trace w1 = trace ?w0 @ es" "SaveConfig \<notin> set es"
    by blast
  have d: "d2d (config w1) \<noteq> None"
    using f(2) by (auto simp: setup_d2d_d2d split: if_splits)
  have c: "count_list (trace w1) SaveConfig =
             count_list (trace w) SaveConfig + (if d2d (config w) = None then 1 else 0)"
    using es by (simp add: count_list_0_iff)
  have "case r1 of
          Inl e \<Rightarrow> r = Inl e \<and> w' = w1
        | Inr u \<Rightarrow> r = Inr () \<and> disk w' = Some (config w') \<and>
                   trace w' = trace w1 @ [SaveConfig]"
    using assms(1) l d by (auto simp: update_def split: sum.splits option.splits)
  with l f(1) c assms(2) show ?thesis by (cases r1) (simp_all split: if_splits)
qed

text \<open>The theorem at a run on a calibrated record in which the sensor fails for the
  second channel: the run raises and the persisted record is the one from before.\<close>

theorem update_persists_once_after_loop_witness:
  "update env_second_session_fails cam_v5 (world0 cfg_calibrated 100) =
     (Inl PiCameraError, snd (update env_second_session_fails cam_v5 (world0 cfg_calibrated 100)))
   \<and> disk (snd (update env_second_session_fails cam_v5 (world0 cfg_calibrated 100))) =
       disk (world0 cfg_calibrated 100)
   \<and> count_list (trace (snd (update env_second_session_fails cam_v5 (world0 cfg_calibrated 100))))
       SaveConfig = 0"
proof -
  let ?w = "world0 cfg_calibrated 100"
  let ?u = "update env_second_session_fails cam_v5 ?w"
  let ?lp = "update_loop env_second_session_fails cam_v5 (light_channels cam_v5) ?w"
  have h: "?u = (Inl PiCameraError, snd ?u)"
    by (simp add: prod_eq_iff concrete_defs effect_defs)
  have d: "(d2d (config ?w) = None) = False" "trace ?w = []"
    by (simp_all add: world0_def cfg_calibrated_def)
  have e: "?lp = update_loop env_second_session_fails cam_v5 (light_channels cam_v5)
                   (if d2d (config ?w) = None then setup_d2d ?w else ?w)"
    by (simp only: d if_False)
  note t = update_persists_once_after_loop [OF h e]
  from t have "snd ?u = snd ?lp"
    by (cases "fst ?lp") simp_all
  moreover from t have "disk (snd ?lp) = disk ?w \<and> count_list (trace (snd ?lp)) SaveConfig = 0"
    by (simp only: d if_False list.simps count_list.simps add_0_right simp_thms)
  ultimately have "disk (snd ?u) = disk ?w \<and> count_list (trace (snd ?u)) SaveConfig = 0"
    by simp
  with h show ?thesis by simp
qed

text \<open>The claim as stated fails on a record without a gain section: with no sensor
  session opening, the run raises, yet the persisted record has changed; and a run that
  completes persists twice.\<close>

theorem update_bootstrap_persists_counterexample:
  "fst (update env_sensor_down cam_v5 (world0 cfg_no_d2d 100)) = Inl PiCameraError
   \<and> disk (snd (update env_sensor_down cam_v5 (world0 cfg_no_d2d 100)))
       \<noteq> disk (world0 cfg_no_d2d 100)
   \<and> fst (update env_ok cam_v5 (world0 cfg_no_d2d 100)) = Inr ()
   \<and> count_list (trace (snd (update env_ok cam_v5 (world0 cfg_no_d2d 100)))) SaveConfig = 2"
  by (simp add: concrete_defs effect_defs)

section \<open>The constructor and the calibrated flag\<close>

text \<open>
  Claim C9. When the constructor returns, the camera's identity is 2 and the calibrated
  flag is set exactly when the configuration was loaded and its \<open>cam_id\<close> is that
  identity: a loaded configuration with another identity, and a load that failed, both
  leave the flag false.
\<close>

theorem init_calibrated_iff:
  assumes "init stg chans loaded cfg0 = Inr (C, cfg)"
  shows "CAM_ID C = 2 \<and> (CALIBRATED C \<longleftrightarrow> (\<exists>c. loaded = Inr c \<and> cam_id c = Some (CAM_ID C)))"
  using assms
  by (auto simp: init_def Let_def split: sum.splits option.splits if_splits)

theorem init_calibrated_iff_witness:
  "init SETTINGS_V5 [GROWTH] (Inr cfg_other_camera) cfg_empty =
     Inr (\<lparr> CAM_ID = 2, HAS_UPDATE = True, cam_settings = SETTINGS_V5,
            light_channels = [GROWTH], CALIBRATED = False \<rparr>, cfg_other_camera)
   \<and> cam_id cfg_other_camera \<noteq> Some 2"
proof -
  let ?C = "\<lparr> CAM_ID = 2, HAS_UPDATE = True, cam_settings = SETTINGS_V5,
               light_channels = [GROWTH], CALIBRATED = False \<rparr>"
  have h: "init SETTINGS_V5 [GROWTH] (Inr cfg_other_camera) cfg_empty = Inr (?C, cfg_other_camera)"
    by (simp add: init_def cfg_other_camera_def SETTINGS_V5_def)
  from init_calibrated_iff [OF h] have "cam_id cfg_other_camera \<noteq> Some 2" by simp
  with h show ?thesis by simp
qed

lemma run_worker_frame:
  assumes "run_worker E cmd w = (r, w')"
  shows "config w' = config w" "disk w' = disk w" "cwd w' = cwd w" "sessions w' = sessions w"
    "spawns w' = Suc (spawns w)" "trace w' = trace w @ [Spawn cmd]"
    "files w' = (case worker E (spawns w) of Wrote img \<Rightarrow> (files w)(cmd_o cmd \<mapsto> img)
                 | _ \<Rightarrow> files w)"
    "r = Inr () \<or> (r = Inl OSError \<and> worker E (spawns w) = SpawnFails)"
    "worker E (spawns w) = SpawnFails \<Longrightarrow> r = Inl OSError"
  using assms
  by (auto simp: run_worker_def Let_def split: worker_outcome.splits)

text \<open>The shape of every run of \<open>capture\<close> that returns an image: \<open>w0\<close> is the world after
  the bootstrap, \<open>w5\<close> the world in which the frames are loaded and the age of the gains is
  tested.\<close>

lemma capture_image_cases:
  assumes "capture E C ch w = (Inr (Some img, g), w')"
  obtains w0 w5 cmd d where
    "(d2d (config w) \<noteq> None \<and> w0 = w) \<or>
     (d2d (config w) = None \<and> update E C (setup_d2d w) = (Inr (), w0))"
    "photo_command C ch (config w0) = Inr (g, cmd)"
    "config w5 = config w0" "cwd w5 = cwd w0" "spawns w5 = spawns w0 + 2"
    "load_frames ch w5 = Inr img"
    "d2d (config w5) = Some d"
    "if now w5 - timestamp d > 3600 * 24 then update E C w5 = (Inr (), w') else w' = w5"
proof -
  let ?boot = "if d2d (config w) = None then update E C (setup_d2d w) else (Inr (), w)"
  obtain rb w0 where boot: "?boot = (rb, w0)" by (cases ?boot)
  let ?w2 = "light_control ch True w0"
  from assms boot obtain u where rb: "rb = Inr u"
    by (cases rb) (simp_all add: capture_def)
  from assms boot rb obtain cmd where pc: "photo_command C ch (config w0) = Inr (g, cmd)"
    by (cases "photo_command C ch (config w0)")
       (auto simp: capture_def Let_def split: prod.splits sum.splits option.splits if_splits)
  obtain r3 w3 where b: "run_worker E (cmd\<lparr>cmd_o := path_to_bright ?w2\<rparr>) ?w2 = (r3, w3)"
    by (cases "run_worker E (cmd\<lparr>cmd_o := path_to_bright ?w2\<rparr>) ?w2")
  let ?w4 = "light_control ch False w3"
  obtain r5 w5 where dk: "run_worker E (cmd\<lparr>cmd_o := path_to_dark ?w4\<rparr>) ?w4 = (r5, w5)"
    by (cases "run_worker E (cmd\<lparr>cmd_o := path_to_dark ?w4\<rparr>) ?w4")
  note fb = run_worker_frame [OF b] and fd = run_worker_frame [OF dk]
  from assms boot rb pc b dk
  have rest: "r3 = Inr () \<and> r5 = Inr () \<and> load_frames ch w5 = Inr img \<and>
    (\<exists>d. d2d (config w5) = Some d \<and>
      (if now w5 - timestamp d > 3600 * 24 then update E C w5 = (Inr (), w') else w' = w5))"
    by (auto simp: capture_def Let_def split: prod.splits sum.splits option.splits if_splits)
  then obtain d where d: "d2d (config w5) = Some d"
    "if now w5 - timestamp d > 3600 * 24 then update E C w5 = (Inr (), w') else w' = w5"
    by blast
  have w0: "(d2d (config w) \<noteq> None \<and> w0 = w) \<or>
     (d2d (config w) = None \<and> update E C (setup_d2d w) = (Inr (), w0))"
    using boot rb by (auto split: if_splits)
  show thesis
    by (rule that [OF w0 pc _ _ _ _ d]) (use fb fd rest in simp_all)
qed

lemmas capture_defs =
  capture_def photo_command_def run_worker_def load_frames_def image_open_def
  path_to_bright_def path_to_dark_def cv2_subtract_def saturate_sub_def is_OSError_def

section \<open>Dark frame subtraction\<close>

text \<open>
  Claim C3. Whenever \<open>capture\<close> returns an image, the image is computed from the two
  files as they are when \<open>capture\<close> returns: on the \<open>GROWTH\<close> channel it is the bright
  frame, whatever the dark frame holds; on every other channel the two frames have the
  same size and each value of the image is the bright value minus the dark value, or 0
  where the dark value is the larger (the values are 8-bit words, whose own subtraction
  would wrap around). The frames [10, 20, 5] and [3, 3, 3] give [7, 17, 2].
\<close>

theorem capture_dark_frame_subtraction:
  assumes "capture E C ch w = (Inr (Some img, g), w')"
  shows "(\<exists>bright. files w' (path_to_bright w') = Some bright \<and>
            (if ch = GROWTH then img = bright
             else \<exists>dark. files w' (path_to_dark w') = Some dark \<and>
                    length dark = length bright \<and>
                    img = map2 (\<lambda>b d. if b < d then 0 else b - d) bright dark))
       \<and> cv2_subtract [10, 20, 5] [3, 3, 3] = Inr [7, 17, 2]
       \<and> cv2_subtract [3, 20] [10, 20] = Inr [0, 0]"
proof -
  from assms obtain w0 w5 cmd d where
    "(d2d (config w) \<noteq> None \<and> w0 = w) \<or>
     (d2d (config w) = None \<and> update E C (setup_d2d w) = (Inr (), w0))"
    "photo_command C ch (config w0) = Inr (g, cmd)"
    "config w5 = config w0" "cwd w5 = cwd w0" "spawns w5 = spawns w0 + 2"
    and lf: "load_frames ch w5 = Inr img"
    and "d2d (config w5) = Some d"
    and up: "if now w5 - timestamp d > 3600 * 24 then update E C w5 = (Inr (), w') else w' = w5"
    by (rule capture_image_cases)
  have same: "files w' = files w5 \<and> cwd w' = cwd w5"
  proof (cases "now w5 - timestamp d > 3600 * 24")
    case True
    with up have "update E C w5 = (Inr (), w')" by simp
    from update_frame(1,2) [OF this] show ?thesis by simp
  next
    case False
    with up show ?thesis by simp
  qed
  then have p: "path_to_bright w' = path_to_bright w5" "path_to_dark w' = path_to_dark w5"
    by (simp_all add: path_to_bright_def path_to_dark_def)
  have sat: "saturate_sub = (\<lambda>b d. if b < d then 0 else b - d)"
    by (simp add: fun_eq_iff saturate_sub_def)
  from lf have "\<exists>bright. files w5 (path_to_bright w5) = Some bright \<and>
            (if ch = GROWTH then img = bright
             else \<exists>dark. files w5 (path_to_dark w5) = Some dark \<and>
                    length dark = length bright \<and>
                    img = map2 (\<lambda>b d. if b < d then 0 else b - d) bright dark)"
    by (auto simp: load_frames_def image_open_def cv2_subtract_def sat
             split: option.splits if_splits)
  then have "\<exists>bright. files w' (path_to_bright w') = Some bright \<and>
            (if ch = GROWTH then img = bright
             else \<exists>dark. files w' (path_to_dark w') = Some dark \<and>
                    length dark = length bright \<and>
                    img = map2 (\<lambda>b d. if b < d then 0 else b - d) bright dark)"
    by (simp only: conjunct1 [OF same] p)
  moreover have "cv2_subtract [10, 20, 5] [3, 3, 3] = Inr [7, 17, 2]"
    by (simp add: cv2_subtract_def saturate_sub_def)
  moreover have "cv2_subtract [3, 20] [10, 20] = Inr [0, 0]"
    by (simp add: cv2_subtract_def saturate_sub_def)
  ultimately show ?thesis by (intro conjI)
qed

theorem capture_dark_frame_subtraction_witness:
  "capture env_ok cam_v5 WHITE (world0 cfg_calibrated 100) =
     (Inr (Some [7, 17, 2], 1), snd (capture env_ok cam_v5 WHITE (world0 cfg_calibrated 100)))
   \<and> files (snd (capture env_ok cam_v5 WHITE (world0 cfg_calibrated 100)))
       (path_to_bright (snd (capture env_ok cam_v5 WHITE (world0 cfg_calibrated 100))))
       = Some [10, 20, 5]
   \<and> (\<exists>bright. files (snd (capture env_ok cam_v5 WHITE (world0 cfg_calibrated 100)))
         (path_to_bright (snd (capture env_ok cam_v5 WHITE (world0 cfg_calibrated 100))))
           = Some bright \<and>
        (\<exists>dark. files (snd (capture env_ok cam_v5 WHITE (world0 cfg_calibrated 100)))
           (path_to_dark (snd (capture env_ok cam_v5 WHITE (world0 cfg_calibrated 100))))
             = Some dark \<and>
           length dark = length bright \<and>
           [7, 17, 2] = map2 (\<lambda>b d. if b < d then 0 else b - d) bright dark))"
proof -
  let ?c = "capture env_ok cam_v5 WHITE (world0 cfg_calibrated 100)"
  have h: "?c = (Inr (Some [7, 17, 2], 1), snd ?c)"
    by (simp add: prod_eq_iff concrete_defs capture_defs effect_defs)
  have b: "files (snd ?c) (path_to_bright (snd ?c)) = Some [10, 20, 5]"
    by (simp add: concrete_defs capture_defs effect_defs)
  from capture_dark_frame_subtraction [OF h] h b show ?thesis by simp
qed

lemma photo_command_gain:
  assumes "photo_command C ch cfg = Inr (g, cmd)" and "d2d cfg = Some d"
  shows "\<exists>ge. gains d ch = Some ge \<and> g = analog_gain ge * digital_gain ge"
  using assms by (auto simp: photo_command_def split: option.splits)

section \<open>The bootstrap of the gain section\<close>

text \<open>
  Claim C8, for a camera on \<open>SETTINGS_V5\<close> (the settings object of the source, whose
  allowed channels are the two that \<open>setup_d2d\<close> writes). When the record has no gain
  section, \<open>capture\<close> first runs \<open>setup_d2d\<close>: the record then has a gain section with
  analog gain 1 and digital gain 1 for every allowed channel and the current time as its
  timestamp, and this record is persisted. Then \<open>update\<close> runs, starting no worker and
  touching no image file. If it raises, \<open>capture\<close> raises the same error and gives no
  image; if it completes, \<open>capture\<close> goes on as a capture from the world it produced.
\<close>

theorem capture_bootstraps_gain_section:
  assumes "d2d (config w) = None" and "cam_settings C = SETTINGS_V5"
  shows "(\<exists>dd. d2d (config (setup_d2d w)) = Some dd
            \<and> list_all (\<lambda>c. gains dd c = Some \<lparr>analog_gain = 1, digital_gain = 1\<rparr>)
                 (allowed_channels (cam_settings C))
            \<and> timestamp dd = now w)
       \<and> disk (setup_d2d w) = Some (config (setup_d2d w))
       \<and> spawns (snd (update E C (setup_d2d w))) = spawns w
       \<and> files (snd (update E C (setup_d2d w))) = files w
       \<and> capture E C ch w =
           (case update E C (setup_d2d w) of
              (Inl e, w1) \<Rightarrow> (Inl e, w1)
            | (Inr u, w1) \<Rightarrow> capture E C ch w1)"
proof -
  obtain r1 w1 where u: "update E C (setup_d2d w) = (r1, w1)"
    by (cases "update E C (setup_d2d w)")
  have a: "\<exists>dd. d2d (config (setup_d2d w)) = Some dd
            \<and> list_all (\<lambda>c. gains dd c = Some \<lparr>analog_gain = 1, digital_gain = 1\<rparr>)
                 (allowed_channels (cam_settings C))
            \<and> timestamp dd = now w"
    by (simp add: setup_d2d_d2d assms(2) SETTINGS_V5_def)
  have b: "spawns w1 = spawns w" "files w1 = files w"
    using update_frame(1,3) [OF u] by simp_all
  have c: "capture E C ch w =
           (case update E C (setup_d2d w) of
              (Inl e, w1) \<Rightarrow> (Inl e, w1)
            | (Inr u, w1) \<Rightarrow> capture E C ch w1)"
  proof (cases r1)
    case (Inl e)
    with u assms(1) show ?thesis by (simp add: capture_def)
  next
    case (Inr x)
    with u have "d2d (config w1) \<noteq> None" by (auto dest: update_Inr_d2d)
    then obtain dd where "d2d (config w1) = Some dd" by blast
    with u Inr assms(1) show ?thesis
      by (simp add: capture_def [of E C ch w] capture_def [of E C ch w1])
  qed
  from a b c u show ?thesis by simp
qed

theorem capture_bootstraps_gain_section_witness:
  "d2d (config (world0 cfg_no_d2d 100)) = None \<and> cam_settings cam_v5 = SETTINGS_V5
   \<and> d2d (config (setup_d2d (world0 cfg_no_d2d 100))) =
       Some \<lparr> gains = [WHITE \<mapsto> \<lparr>analog_gain = 1, digital_gain = 1\<rparr>,
                       GROWTH \<mapsto> \<lparr>analog_gain = 1, digital_gain = 1\<rparr>], timestamp = 100 \<rparr>
   \<and> spawns (snd (update env_ok cam_v5 (setup_d2d (world0 cfg_no_d2d 100)))) = 0
   \<and> fst (update env_ok cam_v5 (setup_d2d (world0 cfg_no_d2d 100))) = Inr ()
   \<and> capture env_ok cam_v5 WHITE (world0 cfg_no_d2d 100) =
       capture env_ok cam_v5 WHITE (snd (update env_ok cam_v5 (setup_d2d (world0 cfg_no_d2d 100))))
   \<and> fst (capture env_ok cam_v5 WHITE (world0 cfg_no_d2d 100)) = Inr (Some [7, 17, 2], 6)"
proof -
  let ?w = "world0 cfg_no_d2d 100"
  let ?u = "update env_ok cam_v5 (setup_d2d ?w)"
  have h1: "d2d (config ?w) = None" by (simp add: concrete_defs)
  have h2: "cam_settings cam_v5 = SETTINGS_V5" by (simp add: cam_v5_def)
  have s: "d2d (config (setup_d2d ?w)) =
       Some \<lparr> gains = [WHITE \<mapsto> \<lparr>analog_gain = 1, digital_gain = 1\<rparr>,
                       GROWTH \<mapsto> \<lparr>analog_gain = 1, digital_gain = 1\<rparr>], timestamp = 100 \<rparr>"
    by (simp add: setup_d2d_d2d world0_def)
  have f: "?u = (Inr (), snd ?u)"
    by (simp add: prod_eq_iff concrete_defs effect_defs)
  have r: "fst (capture env_ok cam_v5 WHITE ?w) = Inr (Some [7, 17, 2], 6)"
    by (simp add: concrete_defs capture_defs effect_defs)
  note t = capture_bootstraps_gain_section [OF h1 h2, of env_ok WHITE]
  from t have "spawns (snd ?u) = spawns ?w" by simp
  then have sp: "spawns (snd ?u) = 0" by (simp add: world0_def)
  from t have "capture env_ok cam_v5 WHITE ?w =
           (case ?u of (Inl e, w1) \<Rightarrow> (Inl e, w1)
            | (Inr u, w1) \<Rightarrow> capture env_ok cam_v5 WHITE w1)"
    by (elim conjE)
  also have "\<dots> = capture env_ok cam_v5 WHITE (snd ?u)"
    by (subst f) simp
  finally have c: "capture env_ok cam_v5 WHITE ?w = capture env_ok cam_v5 WHITE (snd ?u)" .
  from f have f': "fst ?u = Inr ()" by (metis fst_conv)
  from h1 h2 s sp f' c r show ?thesis by (intro conjI)
qed

lemma photo_command_no_wb:
  "wb_entry cfg ch = None \<Longrightarrow> photo_command C ch cfg = Inl KeyError"
  by (simp add: photo_command_def wb_entry_def split: option.splits)

lemma update_session_no_wb:
  "wb_entry (config w) ch = None \<Longrightarrow> update_session E C ch n w = (Inl KeyError, w)"
  by (simp add: update_session_def wb_entry_def split: option.splits)

lemma update_channel_no_wb:
  assumes "wb_entry (config w) ch = None"
  shows "update_channel E C ch w =
           (if sensor_opens E (sessions w)
            then (Inl KeyError,
                  emit SensorClose
                    (emit SensorOpen ((light_control ch True w)\<lparr>sessions := Suc (sessions w)\<rparr>)))
            else (Inl PiCameraError, (light_control ch True w)\<lparr>sessions := Suc (sessions w)\<rparr>))"
proof -
  let ?w1 = "emit SensorOpen ((light_control ch True w)\<lparr>sessions := Suc (sessions w)\<rparr>)"
  have "wb_entry (config ?w1) ch = None" using assms by simp
  from update_session_no_wb [OF this]
  show ?thesis by (simp add: update_channel_def with_sensor_cases)
qed

lemma update_loop_no_wb:
  assumes "ch \<in> set chs" and "wb_entry (config w) ch = None"
  shows "\<exists>e. fst (update_loop E C chs w) = Inl e"
  using assms
proof (induction chs arbitrary: w)
  case Nil
  then show ?case by simp
next
  case (Cons c chs)
  obtain r1 w1 where s: "update_channel E C c w = (r1, w1)"
    by (cases "update_channel E C c w")
  show ?case
  proof (cases r1)
    case (Inl e)
    with s show ?thesis by simp
  next
    case (Inr u)
    have "c \<noteq> ch"
    proof
      assume "c = ch"
      with s Inr update_channel_no_wb [OF Cons.prems(2), of E C] show False
        by (simp split: if_splits)
    qed
    with Cons.prems(1) have m: "ch \<in> set chs" by simp
    from update_channel_frame(5) [OF s] Cons.prems(2)
    have "wb_entry (config w1) ch = None" by (simp add: wb_entry_def)
    from Cons.IH [OF m this] s Inr show ?thesis by simp
  qed
qed

section \<open>The unguarded read of the white balance entry\<close>

text \<open>
  Claim C10. Let the record hold no white balance entry for a channel. A capture on
  that channel, once the bootstrap of the gain section (if there is one to do) has
  completed, turns the channel's light on and raises \<^verbatim>\<open>KeyError\<close>: nothing else
  happens, the light stays on. The pass of \<open>update\<close> over that channel turns the light on
  and opens the sensor; when the session opens, the pass raises \<^verbatim>\<open>KeyError\<close> and the
  only further effect is the closing of the session. A run of \<open>update\<close> whose channels
  include that channel never completes.
\<close>

theorem missing_wb_entry_raises_after_light_on:
  assumes "wb_entry (config w) ch = None"
  shows "capture E C ch w =
           (case (if d2d (config w) = None then update E C (setup_d2d w) else (Inr (), w)) of
              (Inl e, w1) \<Rightarrow> (Inl e, w1)
            | (Inr u, w1) \<Rightarrow> (Inl KeyError, light_control ch True w1))
       \<and> update_channel E C ch w =
           (if sensor_opens E (sessions w)
            then (Inl KeyError,
                  emit SensorClose
                    (emit SensorOpen ((light_control ch True w)\<lparr>sessions := Suc (sessions w)\<rparr>)))
            else (Inl PiCameraError, (light_control ch True w)\<lparr>sessions := Suc (sessions w)\<rparr>))
       \<and> (ch \<in> set (light_channels C) \<longrightarrow> (\<exists>e. fst (update E C w) = Inl e))"
proof -
  let ?boot = "if d2d (config w) = None then update E C (setup_d2d w) else (Inr (), w)"
  obtain rb w0 where boot: "?boot = (rb, w0)" by (cases ?boot)
  have "wb (config w0) = wb (config w)"
  proof (cases "d2d (config w) = None")
    case True
    with boot have "update E C (setup_d2d w) = (rb, w0)" by simp
    from update_frame(4) [OF this] show ?thesis by simp
  next
    case False
    with boot show ?thesis by simp
  qed
  with assms have "wb_entry (config w0) ch = None" by (simp add: wb_entry_def)
  then have "photo_command C ch (config w0) = Inl KeyError" by (rule photo_command_no_wb)
  with boot have a: "capture E C ch w =
           (case ?boot of
              (Inl e, w1) \<Rightarrow> (Inl e, w1)
            | (Inr u, w1) \<Rightarrow> (Inl KeyError, light_control ch True w1))"
    by (cases rb) (simp_all add: capture_def)
  have c: "ch \<in> set (light_channels C) \<longrightarrow> (\<exists>e. fst (update E C w) = Inl e)"
  proof
    assume m: "ch \<in> set (light_channels C)"
    let ?w0 = "if d2d (config w) = None then setup_d2d w else w"
    have "wb_entry (config ?w0) ch = None" using assms by (simp add: wb_entry_def)
    from update_loop_no_wb [OF m this, of E C] obtain e where
      "fst (update_loop E C (light_channels C) ?w0) = Inl e" by blast
    then show "\<exists>e. fst (update E C w) = Inl e"
      by (cases "update_loop E C (light_channels C) ?w0") (simp add: update_def)
  qed
  from a update_channel_no_wb [OF assms] c show ?thesis by (intro conjI)
qed

theorem missing_wb_entry_raises_after_light_on_witness:
  "wb_entry (config (world0 cfg_wb_growth_only 100)) WHITE = None
   \<and> WHITE \<in> set (light_channels cam_v5)
   \<and> capture env_ok cam_v5 WHITE (world0 cfg_wb_growth_only 100) =
       (Inl KeyError, light_control WHITE True (world0 cfg_wb_growth_only 100))
   \<and> light_state (trace (snd (capture env_ok cam_v5 WHITE (world0 cfg_wb_growth_only 100))))
       WHITE = Some True
   \<and> fst (update_channel env_ok cam_v5 WHITE (world0 cfg_wb_growth_only 100)) = Inl KeyError
   \<and> trace (snd (update_channel env_ok cam_v5 WHITE (world0 cfg_wb_growth_only 100))) =
       [Light WHITE True, SensorOpen, SensorClose]
   \<and> (\<exists>e. fst (update env_ok cam_v5 (world0 cfg_wb_growth_only 100)) = Inl e)"
proof -
  let ?w = "world0 cfg_wb_growth_only 100"
  have h: "wb_entry (config ?w) WHITE = None"
    by (simp add: wb_entry_def world0_def cfg_wb_growth_only_def)
  have m: "WHITE \<in> set (light_channels cam_v5)" by (simp add: cam_v5_def)
  have d: "d2d (config ?w) \<noteq> None" "sensor_opens env_ok (sessions ?w)" "trace ?w = []"
    by (simp_all add: world0_def cfg_wb_growth_only_def cfg_calibrated_def env_ok_def)
  note t = missing_wb_entry_raises_after_light_on [OF h, of env_ok cam_v5]
  from t d have c: "capture env_ok cam_v5 WHITE ?w = (Inl KeyError, light_control WHITE True ?w)"
    by auto
  from c d have l: "light_state (trace (snd (capture env_ok cam_v5 WHITE ?w))) WHITE = Some True"
    by simp
  from t d have u: "fst (update_channel env_ok cam_v5 WHITE ?w) = Inl KeyError"
    "trace (snd (update_channel env_ok cam_v5 WHITE ?w)) = [Light WHITE True, SensorOpen, SensorClose]"
    by simp_all
  from t m have "\<exists>e. fst (update env_ok cam_v5 ?w) = Inl e" by blast
  with h m c l u show ?thesis by (intro conjI)
qed

lemmas worker_env_defs =
  env_spawn_fails_def env_dark_spawn_fails_def env_bright_times_out_def world_stale_frame_def

section \<open>A worker that cannot be started\<close>

text \<open>
  Claim C2 at two inputs. When the start of the worker for the bright frame fails,
  \<open>capture\<close> returns \<open>(None, 0)\<close> and the last call of the light callback for the channel
  was the one that turned it on. When the start of the worker for the dark frame fails,
  \<open>capture\<close> returns \<open>(None, 0)\<close> too, and the light was turned off before.
\<close>

theorem capture_spawn_failure_light:
  "fst (capture env_spawn_fails cam_v5 WHITE (world0 cfg_calibrated 100)) = Inr (None, 0)
   \<and> trace (snd (capture env_spawn_fails cam_v5 WHITE (world0 cfg_calibrated 100))) =
       [Light WHITE True,
        Spawn \<lparr> cmd_w = 1632, cmd_h = 1216, cmd_ss = 400000, cmd_awbg = (12 / 10, 13 / 10),
                cmd_ag = 1, cmd_dg = 1, cmd_o = ''/home/pi/cam/tmp/bright.bmp'' \<rparr>]
   \<and> light_state (trace (snd (capture env_spawn_fails cam_v5 WHITE (world0 cfg_calibrated 100))))
       WHITE = Some True
   \<and> fst (capture env_dark_spawn_fails cam_v5 WHITE (world0 cfg_calibrated 100)) = Inr (None, 0)
   \<and> light_state (trace (snd (capture env_dark_spawn_fails cam_v5 WHITE (world0 cfg_calibrated 100))))
       WHITE = Some False"
  by (simp add: concrete_defs worker_env_defs capture_defs effect_defs)

lemma paths_distinct: "path_to_bright w \<noteq> path_to_dark w'" if "cwd w = cwd w'"
  using that by (simp add: path_to_bright_def path_to_dark_def)

lemma run_worker_TimedOut:
  "worker E (spawns w) = TimedOut \<Longrightarrow>
     run_worker E cmd w =
       (Inr (), (emit (Spawn cmd) (w\<lparr>spawns := Suc (spawns w)\<rparr>))\<lparr>now := now w + 20\<rparr>)"
  by (simp add: run_worker_def Let_def)

lemma photo_command_not_allowed:
  assumes "ch \<notin> set (allowed_channels (cam_settings C))" and "cam_settings C = SETTINGS_V5"
  shows "photo_command C ch cfg = Inl KeyError"
proof -
  from assms have "shutter_speed (cam_settings C) ch = None"
    by (simp add: SETTINGS_V5_def)
  then show ?thesis by (simp add: photo_command_def split: option.splits)
qed

section \<open>Channels outside the allowed set\<close>

text \<open>
  Claim C5, as the code has it. Neither routine tests the channel against
  \<open>allowed_channels\<close>; both start by turning the channel's light on. For a channel outside
  the allowed set of \<open>SETTINGS_V5\<close>, on a record with a gain section: \<open>capture\<close> raises
  \<^verbatim>\<open>KeyError\<close> (the settings hold no shutter speed for the channel) right after turning
  the light on, so no sensor session is opened, no worker started and no record changed,
  but the light was switched and stays on. \<open>calibrate_white_balance\<close> does not reject the
  channel: it turns the light on and off, opens no sensor session, leaves the persisted
  record alone, and stores the default pair of the \<open>GROWTH\<close> channel as the channel's
  white balance entry of the in-memory record (or raises \<^verbatim>\<open>KeyError\<close> when the record
  has no white balance section).
\<close>

theorem not_allowed_channel_light_first:
  assumes "ch \<notin> set (allowed_channels (cam_settings C))"
    and "cam_settings C = SETTINGS_V5"
    and "d2d (config w) \<noteq> None"
  shows "capture E C ch w = (Inl KeyError, light_control ch True w)
       \<and> calibrate_white_balance E C ch w =
           (case wb (config w) of
              None \<Rightarrow> (Inl KeyError, light_control ch False (light_control ch True w))
            | Some m \<Rightarrow>
                (Inr (), (light_control ch False (light_control ch True w))
                           \<lparr>config := (config w)\<lparr>wb := Some (m(ch \<mapsto> (4 / 10, 575 / 1000)))\<rparr>\<rparr>))
       \<and> sessions (snd (calibrate_white_balance E C ch w)) = sessions w
       \<and> disk (snd (calibrate_white_balance E C ch w)) = disk w
       \<and> trace (snd (calibrate_white_balance E C ch w)) =
           trace w @ [Light ch True, Light ch False]"
proof -
  from assms(3) obtain d where d: "d2d (config w) = Some d" by blast
  have "photo_command C ch (config w) = Inl KeyError"
    using assms(1,2) by (rule photo_command_not_allowed)
  with d have a: "capture E C ch w = (Inl KeyError, light_control ch True w)"
    by (simp add: capture_def)
  from assms(1,2) have nw: "ch \<noteq> WHITE" by (auto simp: SETTINGS_V5_def)
  have g: "wb_default (cam_settings C) GROWTH = Some (4 / 10, 575 / 1000)"
    by (simp add: assms(2) SETTINGS_V5_def)
  have b: "calibrate_white_balance E C ch w =
           (case wb (config w) of
              None \<Rightarrow> (Inl KeyError, light_control ch False (light_control ch True w))
            | Some m \<Rightarrow>
                (Inr (), (light_control ch False (light_control ch True w))
                           \<lparr>config := (config w)\<lparr>wb := Some (m(ch \<mapsto> (4 / 10, 575 / 1000)))\<rparr>\<rparr>))"
    using nw g by (simp add: calibrate_white_balance_def Let_def split: option.splits)
  have c: "sessions (snd (calibrate_white_balance E C ch w)) = sessions w"
    "disk (snd (calibrate_white_balance E C ch w)) = disk w"
    "trace (snd (calibrate_white_balance E C ch w)) = trace w @ [Light ch True, Light ch False]"
    by (simp_all add: b split: option.splits)
  from a b c show ?thesis by (intro conjI)
qed

theorem not_allowed_channel_light_first_witness:
  "RED \<notin> set (allowed_channels (cam_settings cam_v5))
   \<and> cam_settings cam_v5 = SETTINGS_V5
   \<and> d2d (config (world0 cfg_calibrated 100)) \<noteq> None
   \<and> capture env_ok cam_v5 RED (world0 cfg_calibrated 100) =
       (Inl KeyError, light_control RED True (world0 cfg_calibrated 100))
   \<and> sessions (snd (calibrate_white_balance env_ok cam_v5 RED (world0 cfg_calibrated 100))) = 0
   \<and> disk (snd (calibrate_white_balance env_ok cam_v5 RED (world0 cfg_calibrated 100))) =
       Some cfg_calibrated
   \<and> trace (snd (calibrate_white_balance env_ok cam_v5 RED (world0 cfg_calibrated 100))) =
       [Light RED True, Light RED False]"
proof -
  let ?w = "world0 cfg_calibrated 100"
  have h1: "RED \<notin> set (allowed_channels (cam_settings cam_v5))"
    by (simp add: cam_v5_def SETTINGS_V5_def)
  have h2: "cam_settings cam_v5 = SETTINGS_V5" by (simp add: cam_v5_def)
  have h3: "d2d (config ?w) \<noteq> None" by (simp add: world0_def cfg_calibrated_def)
  have w: "sessions ?w = 0" "disk ?w = Some cfg_calibrated" "trace ?w = []"
    by (simp_all add: world0_def)
  note t = not_allowed_channel_light_first [OF h1 h2 h3, of env_ok]
  from t have "capture env_ok cam_v5 RED ?w = (Inl KeyError, light_control RED True ?w)"
    by (elim conjE)
  moreover from t
  have "sessions (snd (calibrate_white_balance env_ok cam_v5 RED ?w)) = sessions ?w"
    by (elim conjE)
  then have "sessions (snd (calibrate_white_balance env_ok cam_v5 RED ?w)) = 0"
    by (simp only: w)
  moreover from t
  have "disk (snd (calibrate_white_balance env_ok cam_v5 RED ?w)) = disk ?w"
    by (elim conjE)
  then have "disk (snd (calibrate_white_balance env_ok cam_v5 RED ?w)) = Some cfg_calibrated"
    by (simp only: w)
  moreover from t
  have "trace (snd (calibrate_white_balance env_ok cam_v5 RED ?w)) =
          trace ?w @ [Light RED True, Light RED False]"
    by (elim conjE)
  then have "trace (snd (calibrate_white_balance env_ok cam_v5 RED ?w)) =
          [Light RED True, Light RED False]"
    by (simp only: w append_Nil)
  ultimately show ?thesis using h1 h2 h3 by (intro conjI)
qed

text \<open>The claim as stated fails at the channel \<open>RED\<close>: \<open>capture\<close> calls the light callback
  and leaves the light on, and \<open>calibrate_white_balance\<close> completes, calls the callback
  twice and changes the in-memory record.\<close>

theorem not_allowed_channel_counterexample:
  "RED \<notin> set (allowed_channels (cam_settings cam_v5))
   \<and> trace (snd (capture env_ok cam_v5 RED (world0 cfg_calibrated 100))) = [Light RED True]
   \<and> light_state (trace (snd (capture env_ok cam_v5 RED (world0 cfg_calibrated 100)))) RED
       = Some True
   \<and> fst (calibrate_white_balance env_ok cam_v5 RED (world0 cfg_calibrated 100)) = Inr ()
   \<and> wb_entry (config (world0 cfg_calibrated 100)) RED = None
   \<and> wb_entry (config (snd (calibrate_white_balance env_ok cam_v5 RED (world0 cfg_calibrated 100))))
       RED = Some (4 / 10, 575 / 1000)"
  by (simp add: concrete_defs capture_defs effect_defs calibrate_white_balance_def wb_entry_def)

section \<open>Rounding to doubles\<close>

lemma pow2_powi: "pow2 k = 2 powi k"
  by (simp add: pow2_def power_int_def power_one_over inverse_eq_divide)

lemma pow2_pos [simp]: "0 < pow2 k"
  by (simp add: pow2_def)

lemma pow2_Suc: "pow2 (k + 1) = 2 * pow2 k"
  by (simp add: pow2_powi power_int_add_1')

lemma pow2_mono: "k \<le> l \<Longrightarrow> pow2 k \<le> pow2 l"
  by (simp add: pow2_powi power_int_increasing)

lemma pow2_strict_mono: "k < l \<Longrightarrow> pow2 k < pow2 l"
  by (simp add: pow2_powi power_int_strict_increasing)

lemma pow2_nat: "0 \<le> k \<Longrightarrow> pow2 k = 2 ^ nat k"
  by (simp add: pow2_def)

lemma bit_length_bounds:
  "0 < a \<Longrightarrow> 1 \<le> bit_length a \<and> 2 ^ nat (bit_length a - 1) \<le> a \<and> a < 2 ^ nat (bit_length a)"
proof (induction a rule: bit_length.induct)
  case (1 a)
  show ?case
  proof (cases "a = 1")
    case True
    have "bit_length 1 = 1"
      by (simp add: bit_length.simps [of 1] bit_length.simps [of 0])
    with True show ?thesis by simp
  next
    case False
    with "1.prems" have h: "0 < a div 2" by simp
    with "1.IH" "1.prems" have ih: "1 \<le> bit_length (a div 2)"
      "2 ^ nat (bit_length (a div 2) - 1) \<le> a div 2" "a div 2 < 2 ^ nat (bit_length (a div 2))"
      by simp_all
    have l: "bit_length a = 1 + bit_length (a div 2)"
      using "1.prems" by (simp add: bit_length.simps [of a])
    have e1: "nat (bit_length a - 1) = Suc (nat (bit_length (a div 2) - 1))"
      using ih(1) l by simp
    have e2: "nat (bit_length a) = Suc (nat (bit_length (a div 2)))"
      using ih(1) l by simp
    have "2 * 2 ^ nat (bit_length (a div 2) - 1) \<le> a" using ih(2) by linarith
    then have A: "2 ^ nat (bit_length a - 1) \<le> a" unfolding e1 power_Suc .
    have "a < 2 * 2 ^ nat (bit_length (a div 2))" using ih(3) by linarith
    then have B: "a < 2 ^ nat (bit_length a)" unfolding e2 power_Suc .
    have "1 \<le> bit_length a" using ih(1) l by linarith
    with A B show ?thesis by blast
  qed
qed

lemma bit_length_pow2:
  assumes "0 < a"
  shows "pow2 (bit_length a - 1) \<le> of_int a" "of_int a < pow2 (bit_length a)"
proof -
  from bit_length_bounds [OF assms] have b: "1 \<le> bit_length a"
    "2 ^ nat (bit_length a - 1) \<le> a" "a < 2 ^ nat (bit_length a)" by blast+
  have "pow2 (bit_length a - 1) = of_int (2 ^ nat (bit_length a - 1))"
    using b(1) by (simp add: pow2_def)
  also have "\<dots> \<le> of_int a"
    using b(2) by (simp only: of_int_le_iff)
  finally show "pow2 (bit_length a - 1) \<le> of_int a" .
  have "(of_int a :: rat) < of_int (2 ^ nat (bit_length a))"
    using b(3) by (simp only: of_int_less_iff)
  also have "\<dots> = pow2 (bit_length a)"
    using b(1) by (simp add: pow2_def)
  finally show "of_int a < pow2 (bit_length a)" .
qed

lemma pow2_diff: "pow2 (k - l) = pow2 k / pow2 l"
  by (simp add: pow2_powi power_int_diff)

lemma ilog2_bounds:
  assumes "0 < x"
  shows "pow2 (ilog2 x) \<le> x \<and> x < pow2 (ilog2 x + 1)"
proof -
  obtain a b where q: "quotient_of x = (a, b)" by (cases "quotient_of x")
  then have b: "0 < b" and x: "x = of_int a / of_int b"
    by (simp_all add: quotient_of_denom_pos quotient_of_div)
  with assms have a: "0 < a" by (simp add: zero_less_divide_iff)
  note ba = bit_length_pow2 [OF a] and bb = bit_length_pow2 [OF b]
  let ?e0 = "bit_length a - bit_length b"
  have lo: "pow2 (?e0 - 1) < x"
  proof -
    have "pow2 (?e0 - 1) = pow2 (bit_length a - 1) / pow2 (bit_length b)"
      by (simp add: pow2_diff [symmetric] algebra_simps)
    also have "\<dots> \<le> of_int a / pow2 (bit_length b)"
      using ba(1) less_imp_le [OF pow2_pos] by (rule divide_right_mono)
    also have "\<dots> < of_int a / of_int b"
      using bb(2) a b by (intro divide_strict_left_mono) simp_all
    finally show ?thesis by (simp add: x)
  qed
  have hi: "x < pow2 (?e0 + 1)"
  proof -
    have "x = of_int a / of_int b" by (rule x)
    also have "\<dots> < pow2 (bit_length a) / of_int b"
      using ba(2) b by (intro divide_strict_right_mono) simp_all
    also have "\<dots> \<le> pow2 (bit_length a) / pow2 (bit_length b - 1)"
      using bb(1) b by (intro divide_left_mono) (simp_all add: less_imp_le)
    also have "\<dots> = pow2 (?e0 + 1)"
      by (simp add: pow2_diff [symmetric] algebra_simps)
    finally show ?thesis .
  qed
  show ?thesis
  proof (cases "pow2 ?e0 \<le> x")
    case True
    then have "ilog2 x = ?e0" by (simp add: ilog2_def q)
    with True hi show ?thesis by simp
  next
    case False
    then have "ilog2 x = ?e0 - 1" by (simp add: ilog2_def q)
    with False lo show ?thesis by simp
  qed
qed

lemma ilog2_unique:
  assumes "pow2 e \<le> x" and "x < pow2 (e + 1)"
  shows "ilog2 x = e"
proof -
  have "0 < x" using assms(1) pow2_pos [of e] by linarith
  from ilog2_bounds [OF this] have b: "pow2 (ilog2 x) \<le> x" "x < pow2 (ilog2 x + 1)"
    by simp_all
  have "\<not> ilog2 x < e"
  proof
    assume "ilog2 x < e"
    then have "pow2 (ilog2 x + 1) \<le> pow2 e" by (simp add: pow2_mono)
    with b(2) assms(1) show False by linarith
  qed
  moreover have "\<not> e < ilog2 x"
  proof
    assume "e < ilog2 x"
    then have "pow2 (e + 1) \<le> pow2 (ilog2 x)" by (simp add: pow2_mono)
    with b(1) assms(2) show False by linarith
  qed
  ultimately show ?thesis by linarith
qed

text \<open>Rounding in the normal range, with the exponent given.\<close>

lemma round_double_normal:
  assumes "pow2 e \<le> abs x" and "abs x < pow2 (e + 1)" and "- 1022 \<le> e"
  shows "round_double x = sgn x * of_int (round_half_even (abs x / pow2 (e - 52))) * pow2 (e - 52)"
proof -
  from assms(1) pow2_pos [of e] have "0 < abs x" by linarith
  then have "x \<noteq> 0" by simp
  moreover have "ilog2 (abs x) = e" using assms(1,2) by (rule ilog2_unique)
  ultimately show ?thesis using assms(3) by (simp add: round_double_def Let_def max_def)
qed

text \<open>The loop over the indices from \<open>k\<close> on, started at the \<open>k\<close>-th point of the trace,
  ends at the point of the trace that many steps further, having taken one frame per
  index.\<close>

lemma wb_loop_trace:
  assumes "\<forall>i gb. i < k + j \<longrightarrow> frame_means E n i gb = Inr (resp i gb)"
  shows "wb_loop E n [k..<k + j] (wb_trace resp k) w =
           (Inr (wb_trace resp (k + j)), w\<lparr>trace := trace w @ replicate j SensorCapture\<rparr>)"
  using assms
proof (induction j arbitrary: k w)
  case 0
  show ?case by (cases "wb_trace resp k") simp
next
  case (Suc j)
  obtain rg bg where t: "wb_trace resp k = (rg, bg)" by (cases "wb_trace resp k")
  obtain r g b where m: "resp k (rg, bg) = (r, g, b)" by (cases "resp k (rg, bg)") auto
  from Suc.prems have f: "frame_means E n k (rg, bg) = Inr (r, g, b)" by (simp add: m)
  have nx: "wb_trace resp (Suc k) =
      (if abs (float_sub r g) > 1
       then (if r > g then float_sub rg (float_lit (25 / 1000))
             else float_add rg (float_lit (25 / 1000)))
       else rg,
       if abs (float_sub b g) > 1
       then (if b > g then float_sub bg (float_lit (25 / 1000))
             else float_add bg (float_lit (25 / 1000)))
       else bg)"
    by (simp add: t m wb_step_rule_def)
  have l: "[k..<k + Suc j] = k # [Suc k..<Suc k + j]" by (simp add: upt_conv_Cons)
  from Suc.prems have "\<forall>i gb. i < Suc k + j \<longrightarrow> frame_means E n i gb = Inr (resp i gb)"
    by simp
  from Suc.IH [OF this, of "emit SensorCapture w"]
  have ih: "wb_loop E n [Suc k..<Suc k + j] (wb_trace resp (Suc k)) (emit SensorCapture w) =
           (Inr (wb_trace resp (Suc k + j)),
            (emit SensorCapture w)\<lparr>trace := trace (emit SensorCapture w) @ replicate j SensorCapture\<rparr>)" .
  have "wb_loop E n [k..<k + Suc j] (wb_trace resp k) w =
          wb_loop E n [Suc k..<Suc k + j] (wb_trace resp (Suc k)) (emit SensorCapture w)"
    unfolding l t nx by (simp add: f Let_def)
  with ih show ?case by (simp add: emit_def)
qed

section \<open>The white balance loop\<close>

text \<open>
  Claim C1. Let the sensor session open, the record have a rotation and a white balance
  section, the settings have a frame rate and a shutter speed for \<open>WHITE\<close>, and the sensor
  deliver every frame, with the channel means \<open>resp i gb\<close> for frame \<open>i\<close> under the gains
  \<open>gb\<close>. Then \<open>calibrate_white_balance\<close> on \<open>WHITE\<close> completes; the pair it records for
  \<open>WHITE\<close> is the 30th point of the trace of the step rule from (1.1, 1.1), computed
  in double precision as the code computes it; and between the opening and the closing
  of the sensor it takes exactly 30 frames, whatever the means are.
\<close>

theorem calibrate_white_balance_trace:
  assumes "sensor_opens E (sessions w)"
    and "rotation (config w) \<noteq> None"
    and "framerate (cam_settings C) WHITE \<noteq> None"
    and "shutter_speed (cam_settings C) WHITE \<noteq> None"
    and "wb (config w) = Some m"
    and "\<forall>i gb. i < 30 \<longrightarrow> frame_means E (sessions w) i gb = Inr (resp i gb)"
  shows "fst (calibrate_white_balance E C WHITE w) = Inr ()
       \<and> wb (config (snd (calibrate_white_balance E C WHITE w))) =
           Some (m(WHITE \<mapsto> wb_trace resp 30))
       \<and> trace (snd (calibrate_white_balance E C WHITE w)) =
           trace w @ [Light WHITE True, SensorOpen, Sleep 20] @ replicate 30 SensorCapture
             @ [SensorClose, Light WHITE False]"
proof -
  let ?w1 = "light_control WHITE True w"
  let ?w2 = "emit SensorOpen (?w1\<lparr>sessions := Suc (sessions ?w1)\<rparr>)"
  let ?w3 = "sleep 20 ?w2"
  let ?w4 = "?w3\<lparr>trace := trace ?w3 @ replicate 30 SensorCapture\<rparr>"
  from assms(6) have "\<forall>i gb. i < 0 + 30 \<longrightarrow> frame_means E (sessions w) i gb = Inr (resp i gb)"
    by simp
  from wb_loop_trace [OF this, of ?w3]
  have lp: "wb_loop E (sessions w) [0..<30] (float_lit (11 / 10), float_lit (11 / 10)) ?w3 =
              (Inr (wb_trace resp 30), ?w4)"
    by simp
  from assms(2,3,4) obtain rot fr sh where
    v: "rotation (config ?w2) = Some rot" "framerate (cam_settings C) WHITE = Some fr"
       "shutter_speed (cam_settings C) WHITE = Some sh"
    by auto
  have ss: "wb_session E C WHITE (sessions w) ?w2 = (Inr (wb_trace resp 30), ?w4)"
    by (simp only: wb_session_def v option.case lp)
  have ws: "with_sensor E (wb_session E C WHITE) ?w1 = (Inr (wb_trace resp 30), emit SensorClose ?w4)"
    using assms(1) ss by (simp add: with_sensor_cases)
  obtain rg bg where t: "wb_trace resp 30 = (rg, bg)" by (cases "wb_trace resp 30")
  have "calibrate_white_balance E C WHITE w =
          (Inr (), (light_control WHITE False (emit SensorClose ?w4))
                     \<lparr>config := (config w)\<lparr>wb := Some (m(WHITE \<mapsto> (rg, bg)))\<rparr>\<rparr>)"
    using assms(5) by (simp add: calibrate_white_balance_def Let_def ws t)
  then show ?thesis by (simp add: t)
qed

lemma floor_rat_numeral: "\<lfloor>(numeral a :: rat) / numeral b\<rfloor> = numeral a div numeral b"
  using floor_divide_of_int_eq [of "numeral a" "numeral b", where ?'a = rat] by simp

text \<open>The doubles of the literals 1.1 and 0.025, and the differences of the means
  (100, 50, 20).\<close>

lemma wb_literals:
  "float_lit (11 / 10) = 2476979795053773 / 2251799813685248"
  "float_lit (25 / 1000) = 3602879701896397 / 144115188075855872"
  "float_lit (1 / 40) = 3602879701896397 / 144115188075855872"
  by (simp_all add: float_lit_def round_double_normal [where e = 0]
        round_double_normal [where e = "- 6"] pow2_def round_half_even_def Let_def
        floor_rat_numeral)

lemma wb_mean_differences:
  "float_sub 100 50 = 50" "float_sub 20 50 = - 30"
  by (simp_all add: float_sub_def round_double_normal [where e = 5]
        round_double_normal [where e = 4] pow2_def round_half_even_def Let_def
        floor_rat_numeral)

text \<open>The 30 steps of the red gain down from 1.1 and of the blue gain up from 1.1, each
  rounded, grouped by the exponent of the exact result.\<close>

lemma wb_blue_steps_e0:
  "float_add (2476979795053773 / 2251799813685248) (3602879701896397 / 144115188075855872) = 9 / 8"
  "float_add (9 / 8) (3602879701896397 / 144115188075855872) = 2589569785738035 / 2251799813685248"
  "float_add (2589569785738035 / 2251799813685248) (3602879701896397 / 144115188075855872) = 1322932390540083 / 1125899906842624"
  "float_add (1322932390540083 / 1125899906842624) (3602879701896397 / 144115188075855872) = 2702159776422297 / 2251799813685248"
  "float_add (2702159776422297 / 2251799813685248) (3602879701896397 / 144115188075855872) = 689613692941107 / 562949953421312"
  "float_add (689613692941107 / 562949953421312) (3602879701896397 / 144115188075855872) = 2814749767106559 / 2251799813685248"
  "float_add (2814749767106559 / 2251799813685248) (3602879701896397 / 144115188075855872) = 1435522381224345 / 1125899906842624"
  "float_add (1435522381224345 / 1125899906842624) (3602879701896397 / 144115188075855872) = 2927339757790821 / 2251799813685248"
  "float_add (2927339757790821 / 2251799813685248) (3602879701896397 / 144115188075855872) = 372954344141619 / 281474976710656"
  "float_add (372954344141619 / 281474976710656) (3602879701896397 / 144115188075855872) = 3039929748475083 / 2251799813685248"
  "float_add (3039929748475083 / 2251799813685248) (3602879701896397 / 144115188075855872) = 1548112371908607 / 1125899906842624"
  "float_add (1548112371908607 / 1125899906842624) (3602879701896397 / 144115188075855872) = 3152519739159345 / 2251799813685248"
  "float_add (3152519739159345 / 2251799813685248) (3602879701896397 / 144115188075855872) = 802203683625369 / 562949953421312"
  "float_add (802203683625369 / 562949953421312) (3602879701896397 / 144115188075855872) = 3265109729843607 / 2251799813685248"
  "float_add (3265109729843607 / 2251799813685248) (3602879701896397 / 144115188075855872) = 1660702362592869 / 1125899906842624"
  "float_add (1660702362592869 / 1125899906842624) (3602879701896397 / 144115188075855872) = 3377699720527869 / 2251799813685248"
  "float_add (3377699720527869 / 2251799813685248) (3602879701896397 / 144115188075855872) = 214624669741875 / 140737488355328"
  "float_add (214624669741875 / 140737488355328) (3602879701896397 / 144115188075855872) = 3490289711212131 / 2251799813685248"
  "float_add (3490289711212131 / 2251799813685248) (3602879701896397 / 144115188075855872) = 1773292353277131 / 1125899906842624"
  "float_add (1773292353277131 / 1125899906842624) (3602879701896397 / 144115188075855872) = 3602879701896393 / 2251799813685248"
  "float_add (3602879701896393 / 2251799813685248) (3602879701896397 / 144115188075855872) = 914793674309631 / 562949953421312"
  "float_add (914793674309631 / 562949953421312) (3602879701896397 / 144115188075855872) = 3715469692580655 / 2251799813685248"
  "float_add (3715469692580655 / 2251799813685248) (3602879701896397 / 144115188075855872) = 1885882343961393 / 1125899906842624"
  "float_add (1885882343961393 / 1125899906842624) (3602879701896397 / 144115188075855872) = 3828059683264917 / 2251799813685248"
  "float_add (3828059683264917 / 2251799813685248) (3602879701896397 / 144115188075855872) = 485544334825881 / 281474976710656"
  "float_add (485544334825881 / 281474976710656) (3602879701896397 / 144115188075855872) = 3940649673949179 / 2251799813685248"
  "float_add (3940649673949179 / 2251799813685248) (3602879701896397 / 144115188075855872) = 1998472334645655 / 1125899906842624"
  "float_add (1998472334645655 / 1125899906842624) (3602879701896397 / 144115188075855872) = 4053239664633441 / 2251799813685248"
  "float_add (4053239664633441 / 2251799813685248) (3602879701896397 / 144115188075855872) = 1027383664993893 / 562949953421312"
  "float_add (1027383664993893 / 562949953421312) (3602879701896397 / 144115188075855872) = 4165829655317703 / 2251799813685248"
  by (simp_all add: float_add_def round_double_normal [where e = "0"] pow2_def
        round_half_even_def Let_def floor_rat_numeral)

lemma wb_red_steps_e0:
  "float_sub (2476979795053773 / 2251799813685248) (3602879701896397 / 144115188075855872) = 1210342399855821 / 1125899906842624"
  "float_sub (1210342399855821 / 1125899906842624) (3602879701896397 / 144115188075855872) = 2364389804369511 / 2251799813685248"
  "float_sub (2364389804369511 / 2251799813685248) (3602879701896397 / 144115188075855872) = 577023702256845 / 562949953421312"
  "float_sub (577023702256845 / 562949953421312) (3602879701896397 / 144115188075855872) = 2251799813685249 / 2251799813685248"
  by (simp_all add: float_sub_def round_double_normal [where e = "0"] pow2_def
        round_half_even_def Let_def floor_rat_numeral)

lemma wb_red_steps_e1:
  "float_sub (2251799813685249 / 2251799813685248) (3602879701896397 / 144115188075855872) = 8782019273372471 / 9007199254740992"
  "float_sub (8782019273372471 / 9007199254740992) (3602879701896397 / 144115188075855872) = 4278419646001973 / 4503599627370496"
  "float_sub (4278419646001973 / 4503599627370496) (3602879701896397 / 144115188075855872) = 8331659310635421 / 9007199254740992"
  "float_sub (8331659310635421 / 9007199254740992) (3602879701896397 / 144115188075855872) = 506654958079181 / 562949953421312"
  "float_sub (506654958079181 / 562949953421312) (3602879701896397 / 144115188075855872) = 7881299347898371 / 9007199254740992"
  "float_sub (7881299347898371 / 9007199254740992) (3602879701896397 / 144115188075855872) = 3828059683264923 / 4503599627370496"
  "float_sub (3828059683264923 / 4503599627370496) (3602879701896397 / 144115188075855872) = 7430939385161321 / 9007199254740992"
  "float_sub (7430939385161321 / 9007199254740992) (3602879701896397 / 144115188075855872) = 1801439850948199 / 2251799813685248"
  "float_sub (1801439850948199 / 2251799813685248) (3602879701896397 / 144115188075855872) = 6980579422424271 / 9007199254740992"
  "float_sub (6980579422424271 / 9007199254740992) (3602879701896397 / 144115188075855872) = 3377699720527873 / 4503599627370496"
  "float_sub (3377699720527873 / 4503599627370496) (3602879701896397 / 144115188075855872) = 6530219459687221 / 9007199254740992"
  "float_sub (6530219459687221 / 9007199254740992) (3602879701896397 / 144115188075855872) = 788129934789837 / 1125899906842624"
  "float_sub (788129934789837 / 1125899906842624) (3602879701896397 / 144115188075855872) = 6079859496950171 / 9007199254740992"
  "float_sub (6079859496950171 / 9007199254740992) (3602879701896397 / 144115188075855872) = 2927339757790823 / 4503599627370496"
  "float_sub (2927339757790823 / 4503599627370496) (3602879701896397 / 144115188075855872) = 5629499534213121 / 9007199254740992"
  "float_sub (5629499534213121 / 9007199254740992) (3602879701896397 / 144115188075855872) = 1351079888211149 / 2251799813685248"
  "float_sub (1351079888211149 / 2251799813685248) (3602879701896397 / 144115188075855872) = 5179139571476071 / 9007199254740992"
  "float_sub (5179139571476071 / 9007199254740992) (3602879701896397 / 144115188075855872) = 2476979795053773 / 4503599627370496"
  "float_sub (2476979795053773 / 4503599627370496) (3602879701896397 / 144115188075855872) = 4728779608739021 / 9007199254740992"
  "float_sub (4728779608739021 / 9007199254740992) (3602879701896397 / 144115188075855872) = 1 / 2"
  by (simp_all add: float_sub_def round_double_normal [where e = "- 1"] pow2_def
        round_half_even_def Let_def floor_rat_numeral)

lemma wb_red_steps_e2:
  "float_sub (1 / 2) (3602879701896397 / 144115188075855872) = 4278419646001971 / 9007199254740992"
  "float_sub (4278419646001971 / 9007199254740992) (3602879701896397 / 144115188075855872) = 2026619832316723 / 4503599627370496"
  "float_sub (2026619832316723 / 4503599627370496) (3602879701896397 / 144115188075855872) = 3828059683264921 / 9007199254740992"
  "float_sub (3828059683264921 / 9007199254740992) (3602879701896397 / 144115188075855872) = 900719925474099 / 2251799813685248"
  "float_sub (900719925474099 / 2251799813685248) (3602879701896397 / 144115188075855872) = 3377699720527871 / 9007199254740992"
  "float_sub (3377699720527871 / 9007199254740992) (3602879701896397 / 144115188075855872) = 1576259869579673 / 4503599627370496"
  by (simp_all add: float_sub_def round_double_normal [where e = "- 2"] pow2_def
        round_half_even_def Let_def floor_rat_numeral)

lemma wb_trace_constant_means:
  "wb_trace (\<lambda>i gb. (100, 50, 20)) 30 =
     (1576259869579673 / 4503599627370496, 4165829655317703 / 2251799813685248)"
  by (simp add: eval_nat_numeral wb_step_rule_def wb_literals wb_mean_differences
        wb_blue_steps_e0 wb_red_steps_e0 wb_red_steps_e1 wb_red_steps_e2)

text \<open>With a sensor whose frames always have the means (100, 50, 20), red is stepped
  down and blue up in each of the 30 iterations. The recorded pair is that of the doubles
  0.34999999999999987 and 1.8499999999999974, which are not 0.35 and 1.85.\<close>

theorem calibrate_white_balance_trace_witness:
  "sensor_opens env_ok (sessions (world0 cfg_calibrated 100))
   \<and> rotation (config (world0 cfg_calibrated 100)) \<noteq> None
   \<and> framerate (cam_settings cam_v5) WHITE \<noteq> None
   \<and> shutter_speed (cam_settings cam_v5) WHITE \<noteq> None
   \<and> (\<forall>i gb. frame_means env_ok (sessions (world0 cfg_calibrated 100)) i gb = Inr (100, 50, 20))
   \<and> fst (calibrate_white_balance env_ok cam_v5 WHITE (world0 cfg_calibrated 100)) = Inr ()
   \<and> wb_entry (config (snd (calibrate_white_balance env_ok cam_v5 WHITE (world0 cfg_calibrated 100))))
       WHITE = Some (1576259869579673 / 4503599627370496, 4165829655317703 / 2251799813685248)
   \<and> (1576259869579673 / 4503599627370496 :: rat) \<noteq> 35 / 100
   \<and> count_list (trace (snd (calibrate_white_balance env_ok cam_v5 WHITE (world0 cfg_calibrated 100))))
       SensorCapture = 30"
proof -
  let ?w = "world0 cfg_calibrated 100"
  let ?resp = "\<lambda>(i::nat) (gb::rat \<times> rat). (100::rat, 50::rat, 20::rat)"
  let ?m = "[WHITE \<mapsto> (12 / 10, 13 / 10), GROWTH \<mapsto> (4 / 10, 575 / 1000 :: rat)] :: LC \<rightharpoonup> rat \<times> rat"
  let ?c = "calibrate_white_balance env_ok cam_v5 WHITE ?w"
  have h1: "sensor_opens env_ok (sessions ?w)" by (simp add: env_ok_def)
  have h2: "rotation (config ?w) \<noteq> None" by (simp add: world0_def cfg_calibrated_def)
  have h3: "framerate (cam_settings cam_v5) WHITE \<noteq> None"
    by (simp add: cam_v5_def SETTINGS_V5_def)
  have h4: "shutter_speed (cam_settings cam_v5) WHITE \<noteq> None"
    by (simp add: cam_v5_def SETTINGS_V5_def)
  have h5: "wb (config ?w) = Some ?m" by (simp add: world0_def cfg_calibrated_def)
  have f: "\<forall>i gb. frame_means env_ok (sessions ?w) i gb = Inr (100, 50, 20)"
    by (simp add: env_ok_def)
  then have h6: "\<forall>i gb. i < 30 \<longrightarrow> frame_means env_ok (sessions ?w) i gb = Inr (?resp i gb)"
    by simp
  have t30: "wb_trace ?resp 30 =
      (1576259869579673 / 4503599627370496, 4165829655317703 / 2251799813685248)"
    by (rule wb_trace_constant_means)
  note t = calibrate_white_balance_trace [OF h1 h2 h3 h4 h5 h6]
  from t have a: "fst ?c = Inr ()" by (elim conjE)
  from t have "wb (config (snd ?c)) = Some (?m(WHITE \<mapsto> wb_trace ?resp 30))" by (elim conjE)
  then have b: "wb_entry (config (snd ?c)) WHITE =
      Some (1576259869579673 / 4503599627370496, 4165829655317703 / 2251799813685248)"
    by (simp add: wb_entry_def t30)
  from t have "trace (snd ?c) =
           trace ?w @ [Light WHITE True, SensorOpen, Sleep 20] @ replicate 30 SensorCapture
             @ [SensorClose, Light WHITE False]" by (elim conjE)
  moreover have "count_list (replicate n SensorCapture) SensorCapture = n" for n
    by (induction n) simp_all
  ultimately have c: "count_list (trace (snd ?c)) SensorCapture = 30"
    by (simp add: world0_def)
  have n: "(1576259869579673 / 4503599627370496 :: rat) \<noteq> 35 / 100" by simp
  from h1 h2 h3 h4 f a b n c show ?thesis by (intro conjI)
qed

text \<open>A capture on a record with a gain section whose bright worker can be started:
  \<open>w5\<close> is the world after the two workers.\<close>

lemma capture_after_workers:
  assumes "d2d (config w) = Some d"
    and "photo_command C ch (config w) = Inr (gain, cmd)"
    and "worker E (spawns w) \<noteq> SpawnFails"
    and "w5 = snd (run_worker E (cmd\<lparr>cmd_o := path_to_dark w\<rparr>)
                 (light_control ch False
                    (snd (run_worker E (cmd\<lparr>cmd_o := path_to_bright w\<rparr>)
                            (light_control ch True w)))))"
  shows "spawns w5 = spawns w + 2" "config w5 = config w" "cwd w5 = cwd w"
    "worker E (spawns w) = TimedOut \<Longrightarrow>
       files w5 (path_to_bright w5) = files w (path_to_bright w)"
    "worker E (Suc (spawns w)) = TimedOut \<Longrightarrow>
       files w5 (path_to_dark w5) = files w (path_to_dark w)"
    "capture E C ch w =
       (if worker E (Suc (spawns w)) = SpawnFails then (Inr (None, 0), w5)
        else case load_frames ch w5 of
               Inl e \<Rightarrow> (Inl e, w5)
             | Inr rgb \<Rightarrow>
                 if now w5 - timestamp d > 3600 * 24 then
                   (case update E C w5 of
                      (Inl e, w6) \<Rightarrow> (Inl e, w6)
                    | (Inr u, w6) \<Rightarrow> (Inr (Some rgb, gain), w6))
                 else (Inr (Some rgb, gain), w5))"
proof -
  let ?w2 = "light_control ch True w"
  have p2: "path_to_bright ?w2 = path_to_bright w"
    by (simp add: path_to_bright_def)
  obtain r3 w3 where b: "run_worker E (cmd\<lparr>cmd_o := path_to_bright ?w2\<rparr>) ?w2 = (r3, w3)"
    by (cases "run_worker E (cmd\<lparr>cmd_o := path_to_bright ?w2\<rparr>) ?w2")
  note fb = run_worker_frame [OF b]
  from fb(8) assms(3) have r3: "r3 = Inr ()" by auto
  let ?w4 = "light_control ch False w3"
  have p4: "path_to_dark ?w4 = path_to_dark w"
    using fb(3) by (simp add: path_to_dark_def)
  obtain r5 where dk: "run_worker E (cmd\<lparr>cmd_o := path_to_dark ?w4\<rparr>) ?w4 = (r5, w5)"
    using assms(4) b p2 p4
    by (cases "run_worker E (cmd\<lparr>cmd_o := path_to_dark ?w4\<rparr>) ?w4") simp
  note fd = run_worker_frame [OF dk]
  have s4: "spawns ?w4 = Suc (spawns w)" using fb(5) by simp
  show sp: "spawns w5 = spawns w + 2" using fd(5) fb(5) by simp
  show cf: "config w5 = config w" using fd(1) fb(1) by simp
  show cw: "cwd w5 = cwd w" using fd(3) fb(3) by simp
  have nb: "path_to_bright w \<noteq> path_to_dark w" by (rule paths_distinct) simp
  have f3: "files w3 = (case worker E (spawns w) of
                          Wrote img \<Rightarrow> (files w)(path_to_bright w \<mapsto> img) | _ \<Rightarrow> files w)"
    using fb(7) p2 by (simp split: worker_outcome.splits)
  have f5: "files w5 = (case worker E (Suc (spawns w)) of
                          Wrote img \<Rightarrow> (files w3)(path_to_dark w \<mapsto> img) | _ \<Rightarrow> files w3)"
    using fd(7) p4 s4 by (simp split: worker_outcome.splits)
  show "files w5 (path_to_bright w5) = files w (path_to_bright w)"
    if "worker E (spawns w) = TimedOut"
  proof -
    have "files w5 (path_to_bright w) = files w3 (path_to_bright w)"
      using nb by (simp add: f5 split: worker_outcome.splits)
    also have "\<dots> = files w (path_to_bright w)" using that by (simp add: f3)
    finally show ?thesis using cw by (simp add: path_to_bright_def)
  qed
  show "files w5 (path_to_dark w5) = files w (path_to_dark w)"
    if "worker E (Suc (spawns w)) = TimedOut"
  proof -
    have "files w5 (path_to_dark w) = files w3 (path_to_dark w)"
      using that by (simp add: f5)
    also have "\<dots> = files w (path_to_dark w)"
      using nb by (simp add: f3 split: worker_outcome.splits)
    finally show ?thesis using cw by (simp add: path_to_dark_def)
  qed
  have r5: "r5 = (if worker E (Suc (spawns w)) = SpawnFails then Inl OSError else Inr ())"
    using fd(8) fd(9) s4 by auto
  have d5: "d2d (config w5) = Some d" using cf assms(1) by simp
  show "capture E C ch w =
       (if worker E (Suc (spawns w)) = SpawnFails then (Inr (None, 0), w5)
        else case load_frames ch w5 of
               Inl e \<Rightarrow> (Inl e, w5)
             | Inr rgb \<Rightarrow>
                 if now w5 - timestamp d > 3600 * 24 then
                   (case update E C w5 of
                      (Inl e, w6) \<Rightarrow> (Inl e, w6)
                    | (Inr u, w6) \<Rightarrow> (Inr (Some rgb, gain), w6))
                 else (Inr (Some rgb, gain), w5))"
    using assms(1,2) b r3 dk r5 d5
    by (simp add: capture_def Let_def is_OSError_def split: sum.splits)
qed

section \<open>Recalibration of stale gains after the result\<close>

text \<open>
  Claim C6, as the code has it. Take a capture on a record with a gain section \<open>d\<close>
  whose command line can be formatted and whose two workers can be started, and let
  \<open>w5\<close> be the world after the two workers, in which the frames load to the image \<open>rgb\<close>.
  The record in \<open>w5\<close> is the one on entry, and the gain of the result is the product of
  the analog and the digital gain that \<open>d\<close> holds for the channel. If in \<open>w5\<close> the clock is
  more than 24 hours past the timestamp of \<open>d\<close>, \<open>update\<close> runs from \<open>w5\<close>, after image
  and gain were computed and before \<open>capture\<close> returns: when it completes, \<open>capture\<close>
  returns that image and that gain in the world \<open>update\<close> produced; when it raises,
  \<open>capture\<close> raises the same error and the image is not returned. Otherwise \<open>capture\<close>
  returns image and gain in \<open>w5\<close>.
\<close>

theorem capture_recalibrates_after_result:
  assumes "d2d (config w) = Some d"
    and "photo_command C ch (config w) = Inr (gain, cmd)"
    and "worker E (spawns w) \<noteq> SpawnFails"
    and "worker E (Suc (spawns w)) \<noteq> SpawnFails"
    and "w5 = snd (run_worker E (cmd\<lparr>cmd_o := path_to_dark w\<rparr>)
                 (light_control ch False
                    (snd (run_worker E (cmd\<lparr>cmd_o := path_to_bright w\<rparr>)
                            (light_control ch True w)))))"
    and "load_frames ch w5 = Inr rgb"
  shows "config w5 = config w
       \<and> (\<exists>ge. gains d ch = Some ge \<and> gain = analog_gain ge * digital_gain ge)
       \<and> capture E C ch w =
           (if now w5 - timestamp d > 3600 * 24 then
              (case update E C w5 of
                 (Inl e, w6) \<Rightarrow> (Inl e, w6)
               | (Inr u, w6) \<Rightarrow> (Inr (Some rgb, gain), w6))
            else (Inr (Some rgb, gain), w5))"
proof -
  note c = capture_after_workers [OF assms(1,2,3,5)]
  from c(6) assms(4,6) have "capture E C ch w =
           (if now w5 - timestamp d > 3600 * 24 then
              (case update E C w5 of
                 (Inl e, w6) \<Rightarrow> (Inl e, w6)
               | (Inr u, w6) \<Rightarrow> (Inr (Some rgb, gain), w6))
            else (Inr (Some rgb, gain), w5))"
    by simp
  with c(2) photo_command_gain [OF assms(2,1)] show ?thesis by (intro conjI)
qed

text \<open>A capture 100000 seconds after the timestamp, with working hardware: the returned
  gain is 1, from the record on entry; the record afterwards holds the gains the sensor
  reported, 2 and 3.\<close>

theorem capture_recalibrates_after_result_witness:
  "d2d (config (world0 cfg_calibrated 100000)) =
     Some \<lparr> gains = [WHITE \<mapsto> \<lparr>analog_gain = 1, digital_gain = 1\<rparr>,
                     GROWTH \<mapsto> \<lparr>analog_gain = 1, digital_gain = 1\<rparr>], timestamp = 0 \<rparr>
   \<and> photo_command cam_v5 WHITE (config (world0 cfg_calibrated 100000)) =
       Inr (1, \<lparr> cmd_w = 1632, cmd_h = 1216, cmd_ss = 400000, cmd_awbg = (12 / 10, 13 / 10),
                  cmd_ag = 1, cmd_dg = 1, cmd_o = [] \<rparr>)
   \<and> worker env_ok (spawns (world0 cfg_calibrated 100000)) \<noteq> SpawnFails
   \<and> worker env_ok (Suc (spawns (world0 cfg_calibrated 100000))) \<noteq> SpawnFails
   \<and> fst (capture env_ok cam_v5 WHITE (world0 cfg_calibrated 100000)) = Inr (Some [7, 17, 2], 1)
   \<and> map_option (\<lambda>s. gains s WHITE)
        (d2d (config (snd (capture env_ok cam_v5 WHITE (world0 cfg_calibrated 100000))))) =
       Some (Some \<lparr>analog_gain = 2, digital_gain = 3\<rparr>)"
proof -
  let ?w = "world0 cfg_calibrated 100000"
  let ?E = env_ok
  let ?d = "\<lparr> gains = [WHITE \<mapsto> \<lparr>analog_gain = 1, digital_gain = 1\<rparr>,
                     GROWTH \<mapsto> \<lparr>analog_gain = 1, digital_gain = 1\<rparr>], timestamp = 0 \<rparr>"
  let ?cmd = "\<lparr> cmd_w = 1632, cmd_h = 1216, cmd_ss = 400000, cmd_awbg = (12 / 10, 13 / 10),
                  cmd_ag = 1, cmd_dg = 1, cmd_o = [] \<rparr>"
  let ?w5 = "snd (run_worker ?E (?cmd\<lparr>cmd_o := path_to_dark ?w\<rparr>)
                 (light_control WHITE False
                    (snd (run_worker ?E (?cmd\<lparr>cmd_o := path_to_bright ?w\<rparr>)
                            (light_control WHITE True ?w)))))"
  have h1: "d2d (config ?w) = Some ?d" by (simp add: world0_def cfg_calibrated_def)
  have h2: "photo_command cam_v5 WHITE (config ?w) = Inr (1, ?cmd)"
    by (simp add: photo_command_def concrete_defs)
  have h3: "worker ?E (spawns ?w) \<noteq> SpawnFails" by (simp add: env_ok_def world0_def)
  have h4: "worker ?E (Suc (spawns ?w)) \<noteq> SpawnFails" by (simp add: env_ok_def world0_def)
  have h6: "load_frames WHITE ?w5 = Inr [7, 17, 2]"
    by (simp add: concrete_defs capture_defs effect_defs)
  have st: "now ?w5 - timestamp ?d > 3600 * 24"
    by (simp add: concrete_defs capture_defs effect_defs)
  have u: "fst (update ?E cam_v5 ?w5) = Inr ()"
    by (simp add: concrete_defs capture_defs effect_defs)
  have g: "map_option (\<lambda>s. gains s WHITE) (d2d (config (snd (update ?E cam_v5 ?w5)))) =
       Some (Some \<lparr>analog_gain = 2, digital_gain = 3\<rparr>)"
    by (simp add: concrete_defs capture_defs effect_defs)
  from capture_recalibrates_after_result [OF h1 h2 h3 h4 refl h6] st
  have "capture ?E cam_v5 WHITE ?w =
          (case update ?E cam_v5 ?w5 of
             (Inl e, w6) \<Rightarrow> (Inl e, w6)
           | (Inr u, w6) \<Rightarrow> (Inr (Some [7, 17, 2], 1), w6))"
    by simp
  with u have "capture ?E cam_v5 WHITE ?w = (Inr (Some [7, 17, 2], 1), snd (update ?E cam_v5 ?w5))"
    by (cases "update ?E cam_v5 ?w5") simp
  with g have "fst (capture ?E cam_v5 WHITE ?w) = Inr (Some [7, 17, 2], 1)"
    "map_option (\<lambda>s. gains s WHITE) (d2d (config (snd (capture ?E cam_v5 WHITE ?w)))) =
       Some (Some \<lparr>analog_gain = 2, digital_gain = 3\<rparr>)"
    by simp_all
  with h1 h2 h3 h4 show ?thesis by (intro conjI)
qed

text \<open>The claim as stated fails when the recalibration raises: 100000 seconds after the
  timestamp, with a sensor that does not open, both workers ran and the frames load to
  [7, 17, 2], yet \<open>capture\<close> raises the error of \<open>update\<close> and returns no image.\<close>

theorem capture_recalibration_failure_counterexample:
  "fst (capture env_sensor_down cam_v5 WHITE (world0 cfg_calibrated 100000)) = Inl PiCameraError
   \<and> spawns (snd (capture env_sensor_down cam_v5 WHITE (world0 cfg_calibrated 100000))) = 2
   \<and> load_frames WHITE (snd (capture env_sensor_down cam_v5 WHITE (world0 cfg_calibrated 100000)))
       = Inr [7, 17, 2]"
  by (simp add: concrete_defs capture_defs effect_defs)

section \<open>A capture command that times out\<close>




end
